theory Spec2Isabelle
  imports Complex_Main "HOL-Library.Log_Nat"
begin

section \<open>The indoor layout scorer of \<open>frontend/indoor-analysis.js\<close>\<close>

text \<open>
  The scorer is the group of functions \<open>calculateDesignFengShui\<close>,
  \<open>calculateElementBalanceScore\<close>, \<open>calculateEnergyBalanceScore\<close>, \<open>calculateSpacialScore\<close>,
  \<open>calculateFunctionalScore\<close> and \<open>generateRecommendations\<close>, together with the constant table
  \<open>elementFengShuiData\<close>.

  Numbers. Every JavaScript number is an IEEE double. Counts and the integer scores are small
  integers, which doubles hold exactly; they are \<open>nat\<close> and \<open>int\<close> here, and a sum of counts is
  the sum of naturals (an array has fewer than \<open>2 ^ 32\<close> entries). A value that may be \<open>NaN\<close>
  has the type \<open>'a js\<close>.

  The element-balance score is computed in doubles: every division, subtraction, addition and
  multiplication of \<open>calculateElementBalanceScore\<close> is the exact operation followed by \<open>fl\<close>,
  the rounding to the nearest double, a tie going to the even significand. The rounding
  matters: for the counts 0, 1, 1, 1, 5 the exact value of the score is 57.5 and the doubles
  arrive at 57.49999999999999, which \<open>Math.round\<close> takes to 57.

  Two computations are exact rationals, because the doubles decide them in the same way. The
  comparisons of a quotient of two counts with the literals 0.3, 0.4, 0.6 and 0.7: the
  division is correctly rounded and the literal is the double nearest to the decimal. And the
  weighted sum of the overall score: for integer sub-scores between 0 and 100 the sum of the
  doubles is within \<open>2 ^ - 44\<close> of the exact sum, which is a multiple of 0.05, and where the
  exact sum is a tie the doubles give the tie itself or a number above it.

  Strings. A JavaScript string is modelled by its UTF-8 bytes. The table
  \<open>elementFengShuiData\<close> is an object literal, so a lookup also finds the names that every
  object inherits, such as \<open>constructor\<close>.
\<close>

subsection \<open>Data\<close>

datatype element = Wood | Fire | Earth | Metal | Water

datatype energy = Yin | Yang | Neutral

record fengshui_data =
  element :: element
  energy :: energy
  placement :: string
  bagua :: string

text \<open>An entry pushed onto \<open>placedElements\<close> by \<open>placeElement\<close>:
  \<open>{id, type, x, y, icon}\<close>.\<close>

record placed_item =
  item_id :: string
  item_type :: string
  pos_x :: rat
  pos_y :: rat
  icon :: string

text \<open>A JavaScript number that may be \<open>NaN\<close>.\<close>

datatype 'a js = Num 'a | NaN

text \<open>\<open>{ wood: 0, fire: 0, earth: 0, metal: 0, water: 0 }\<close>, in this key order. The tally can
  add one more key to the object, the key \<open>undefined\<close>, and its value is then \<open>NaN\<close>;
  \<open>undefined_element\<close> says whether the key is there.\<close>

record element_counts =
  wood :: nat
  fire :: nat
  earth :: nat
  metal :: nat
  water :: nat
  undefined_element :: bool

text \<open>\<open>{ yin: 0, yang: 0 }\<close>, with the same possible extra key.\<close>

record energy_balance =
  yin :: nat
  yang :: nat
  undefined_energy :: bool

record analysis =
  overallScore :: "int js"
  elementBalance :: "int js"
  energyScore :: int
  spacialScore :: int
  functionalScore :: int
  elementCounts :: element_counts
  energyBalance :: energy_balance
  recommendations :: "string list"

subsection \<open>The catalog\<close>

definition mk_data :: "element \<Rightarrow> energy \<Rightarrow> string \<Rightarrow> string \<Rightarrow> fengshui_data" where
  "mk_data el en pl bg = \<lparr>element = el, energy = en, placement = pl, bagua = bg\<rparr>"

definition elementFengShuiData_table :: "(string \<times> fengshui_data) list" where
  "elementFengShuiData_table =
    [(''bed'', mk_data Earth Yin ''important'' ''relationship''),
     (''sofa'', mk_data Earth Yin ''center'' ''family''),
     (''desk'', mk_data Wood Yang ''power'' ''career''),
     (''table'', mk_data Wood Neutral ''center'' ''health''),
     (''chair'', mk_data Wood Yang ''supportive'' ''support''),
     (''wardrobe'', mk_data Wood Yin ''storage'' ''wealth''),
     (''bookshelf'', mk_data Wood Yang ''knowledge'' ''knowledge''),
     (''tv'', mk_data Fire Yang ''entertainment'' ''fame''),
     (''mirror'', mk_data Water Yang ''reflective'' ''expansion''),
     (''painting'', mk_data Fire Yang ''inspiration'' ''creativity''),
     (''clock'', mk_data Metal Yang ''time'' ''helpful''),
     (''vase'', mk_data Earth Yin ''decorative'' ''peace''),
     (''rug'', mk_data Earth Yin ''grounding'' ''stability''),
     (''curtain'', mk_data Water Yin ''privacy'' ''protection''),
     (''window'', mk_data Metal Yang ''openness'' ''opportunities''),
     (''door'', mk_data Wood Yang ''entry'' ''career''),
     (''fountain'', mk_data Water Yang ''flow'' ''wealth''),
     (''crystals'', mk_data Earth Yang ''energy'' ''clarity''),
     (''bamboo'', mk_data Wood Yang ''growth'' ''prosperity''),
     (''plant'', mk_data Wood Yang ''life'' ''health''),
     (''bonsai'', mk_data Wood Yin ''balance'' ''wisdom''),
     (''flowers'', mk_data Wood Yang ''beauty'' ''love''),
     (''lamp'', mk_data Fire Yang ''illumination'' ''clarity''),
     (''chandelier'', mk_data Fire Yang ''grandeur'' ''wealth''),
     (''candle'', mk_data Fire Yang ''warmth'' ''passion'')]"

text \<open>The names that every object inherits from \<open>Object.prototype\<close>: eleven functions and the
  accessor \<open>__proto__\<close>.\<close>

definition inherited_names :: "string list" where
  "inherited_names =
    [''constructor'', ''hasOwnProperty'', ''isPrototypeOf'', ''propertyIsEnumerable'',
     ''toLocaleString'', ''toString'', ''valueOf'', ''__proto__'', ''__defineGetter__'',
     ''__defineSetter__'', ''__lookupGetter__'', ''__lookupSetter__'']"

text \<open>What \<open>elementFengShuiData[item.type]\<close> can be: an entry of the table; an inherited value,
  which is truthy and has neither \<open>element\<close> nor \<open>energy\<close>; or \<open>undefined\<close>.\<close>

datatype catalog_value = Entry fengshui_data | Inherited | Undefined

definition elementFengShuiData :: "string \<Rightarrow> catalog_value" where
  "elementFengShuiData t =
    (case map_of elementFengShuiData_table t of
       Some data \<Rightarrow> Entry data
     | None \<Rightarrow> if t \<in> set inherited_names then Inherited else Undefined)"

subsection \<open>JavaScript arithmetic\<close>

text \<open>\<open>Math.round\<close>: the nearest integer, a tie going up.\<close>

definition Math_round :: "rat \<Rightarrow> int" where
  "Math_round v = \<lfloor>v + 1 / 2\<rfloor>"

text \<open>A quotient of two counts. \<open>0 / 0\<close> is \<open>NaN\<close>, here \<open>None\<close>; a positive count over
  zero does not occur in the scorer (the divisor is a sum that contains the dividend).\<close>

definition js_div :: "nat \<Rightarrow> nat \<Rightarrow> rat option" where
  "js_div a b = (if b = 0 then None else Some (of_nat a / of_nat b))"

text \<open>\<open>>\<close> and \<open><\<close> with \<open>NaN\<close> on the left are false.\<close>

definition js_gt :: "rat option \<Rightarrow> rat \<Rightarrow> bool" where
  "js_gt r c = (case r of None \<Rightarrow> False | Some v \<Rightarrow> v > c)"

definition js_lt :: "rat option \<Rightarrow> rat \<Rightarrow> bool" where
  "js_lt r c = (case r of None \<Rightarrow> False | Some v \<Rightarrow> v < c)"

subsection \<open>Doubles\<close>

text \<open>The nearest integer, a tie going to the even one.\<close>

definition round_half_even :: "rat \<Rightarrow> int" where
  "round_half_even m =
    (let f = \<lfloor>m\<rfloor>; r = m - of_int f in
     if r < 1 / 2 then f
     else if 1 / 2 < r then f + 1
     else if even f then f else f + 1)"

text \<open>The exponent of the unit in the last place of a non-zero number \<open>x\<close>: the \<open>e\<close> with
  \<open>2 ^ 52 \<le> \<bar>x\<bar> / 2 ^ e < 2 ^ 53\<close>. With \<open>p / q\<close> the number in lowest terms, \<open>e\<close> is the
  difference of the bit lengths of \<open>p\<close> and \<open>q\<close> less 53, or one more.\<close>

definition ulp_exponent :: "rat \<Rightarrow> int" where
  "ulp_exponent x =
    (let (p, q) = quotient_of \<bar>x\<bar>; k = bitlen p - bitlen q - 53 in
     if \<bar>x\<bar> < 2 powi (k + 53) then k else k + 1)"

text \<open>The double nearest to a rational: 53 significant bits, a tie to the even significand.
  The exponent is not bounded, so \<open>fl\<close> is the rounding of IEEE 754 binary64 on the numbers
  whose magnitude lies between \<open>2 ^ - 1022\<close> and \<open>2 ^ 1024\<close>, and on 0; the scorer's numbers
  are 0 or lie between \<open>2 ^ - 32\<close> and \<open>2 ^ 34\<close>.\<close>

definition fl :: "rat \<Rightarrow> rat" where
  "fl x =
    (if x = 0 then 0
     else of_int (round_half_even (x / 2 powi ulp_exponent x)) * 2 powi ulp_exponent x)"

text \<open>The operations of the element-balance score, on doubles that may be \<open>NaN\<close>. The divisors
  of the score are the literal 5 and a total that is not 0.\<close>

fun js_plus :: "rat js \<Rightarrow> rat js \<Rightarrow> rat js" where
  "js_plus (Num a) (Num b) = Num (fl (a + b))"
| "js_plus _ _ = NaN"

fun js_minus :: "rat js \<Rightarrow> rat js \<Rightarrow> rat js" where
  "js_minus (Num a) (Num b) = Num (fl (a - b))"
| "js_minus _ _ = NaN"

fun js_times :: "rat js \<Rightarrow> rat js \<Rightarrow> rat js" where
  "js_times (Num a) (Num b) = Num (fl (a * b))"
| "js_times _ _ = NaN"

fun js_divide :: "rat js \<Rightarrow> rat js \<Rightarrow> rat js" where
  "js_divide (Num a) (Num b) = (if b = 0 then NaN else Num (fl (a / b)))"
| "js_divide _ _ = NaN"

fun Math_abs :: "rat js \<Rightarrow> rat js" where
  "Math_abs (Num a) = Num \<bar>a\<bar>"
| "Math_abs NaN = NaN"

fun Math_max :: "rat js \<Rightarrow> rat js \<Rightarrow> rat js" where
  "Math_max (Num a) (Num b) = Num (max a b)"
| "Math_max _ _ = NaN"

fun Math_round_js :: "rat js \<Rightarrow> int js" where
  "Math_round_js (Num a) = Num (Math_round a)"
| "Math_round_js NaN = NaN"

text \<open>The sum of two counts; a count is \<open>NaN\<close> only under the key \<open>undefined\<close>.\<close>

fun count_plus :: "nat js \<Rightarrow> nat js \<Rightarrow> nat js" where
  "count_plus (Num a) (Num b) = Num (a + b)"
| "count_plus _ _ = NaN"

fun number_of :: "nat js \<Rightarrow> rat js" where
  "number_of (Num n) = Num (of_nat n)"
| "number_of NaN = NaN"

subsection \<open>The sub-scores\<close>

text \<open>\<open>Object.values(counts)\<close>, in insertion order; the key \<open>undefined\<close>, when there, was
  inserted last.\<close>

definition values_of :: "element_counts \<Rightarrow> nat js list" where
  "values_of counts =
    [Num (wood counts), Num (fire counts), Num (earth counts), Num (metal counts),
     Num (water counts)] @ (if undefined_element counts then [NaN] else [])"

definition calculateElementBalanceScore :: "element_counts \<Rightarrow> int js" where
  "calculateElementBalanceScore counts =
    (let total = foldl (\<lambda>a b. count_plus a b) (Num 0) (values_of counts) in
     if total = Num 0 then Num 0
     else
       let ideal = js_divide (number_of total) (Num 5);
           variance = foldl (\<lambda>sum count.
               js_plus sum (Math_abs (js_minus (number_of count) ideal)))
             (Num 0) (values_of counts);
           score = Math_max (Num 0)
             (js_minus (Num 100) (js_times (js_divide variance (number_of total)) (Num 50)))
       in Math_round_js score)"

definition calculateEnergyBalanceScore :: "energy_balance \<Rightarrow> int" where
  "calculateEnergyBalanceScore en =
    (let total = yin en + yang en in
     if total = 0 then 50
     else
       let ratio = (of_nat (yang en) :: rat) / of_nat total in
       if ratio \<ge> 4 / 10 \<and> ratio \<le> 6 / 10 then 100
       else if ratio \<ge> 3 / 10 \<and> ratio \<le> 7 / 10 then 80
       else 60)"

definition calculateSpacialScore :: "placed_item list \<Rightarrow> int" where
  "calculateSpacialScore elements =
    (let elementDensity = length elements in
     if elementDensity < 5 then 90
     else if elementDensity < 10 then 85
     else if elementDensity < 15 then 75
     else if elementDensity < 20 then 65
     else 50)"

text \<open>\<open>types.includes(t)\<close>\<close>

definition js_includes :: "string list \<Rightarrow> string \<Rightarrow> bool" where
  "js_includes types t = (t \<in> set types)"

definition calculateFunctionalScore :: "placed_item list \<Rightarrow> string \<Rightarrow> int" where
  "calculateFunctionalScore elements roomType =
    (let types = map item_type elements;
         score = (70 :: int);
         score =
           (if roomType = ''bedroom'' then
              let score = (if js_includes types ''bed'' then score + 10 else score);
                  score = (if js_includes types ''plant'' then score + 5 else score);
                  score = (if js_includes types ''mirror'' \<and> js_includes types ''bed''
                           then score - 10 else score);
                  score = (if js_includes types ''lamp'' then score + 5 else score)
              in score
            else if roomType = ''living'' then
              let score = (if js_includes types ''sofa'' then score + 10 else score);
                  score = (if js_includes types ''plant'' then score + 5 else score);
                  score = (if js_includes types ''lamp'' \<or> js_includes types ''chandelier''
                           then score + 5 else score)
              in score
            else if roomType = ''office'' then
              let score = (if js_includes types ''desk'' then score + 10 else score);
                  score = (if js_includes types ''chair'' then score + 5 else score);
                  score = (if js_includes types ''plant'' then score + 5 else score);
                  score = (if js_includes types ''bookshelf'' then score + 5 else score)
              in score
            else score)
     in min 100 score)"

subsection \<open>The recommendations\<close>

text \<open>The messages, as the source writes them. The warning sign (U+26A0 U+FE0F) and the check
  mark (U+2713) that open two of them are given by their UTF-8 bytes.\<close>

definition rec_wood :: string where
  "rec_wood = ''Add more wood elements (plants, furniture) for growth energy''"

definition rec_fire :: string where
  "rec_fire = ''Include fire elements (candles, red colors) for passion and warmth''"

definition rec_water :: string where
  "rec_water = ''Add water elements (fountain, mirror) for flow and prosperity''"

definition rec_earth :: string where
  "rec_earth = ''Incorporate earth elements (crystals, pottery) for stability''"

definition rec_metal :: string where
  "rec_metal = ''Include metal elements (clocks, metal frames) for clarity''"

definition rec_too_yang :: string where
  "rec_too_yang = ''Balance yang energy with softer, yin elements (curtains, rugs)''"

definition rec_too_yin :: string where
  "rec_too_yin = ''Add more yang energy with lighting and active elements''"

definition rec_plants :: string where
  "rec_plants = ''Add plants for fresh air and positive energy''"

definition rec_mirror :: string where
  "rec_mirror = [CHR 0xE2, CHR 0x9A, CHR 0xA0, CHR 0xEF, CHR 0xB8, CHR 0x8F]
     @ '' Avoid placing mirrors directly facing the bed''"

definition rec_declutter :: string where
  "rec_declutter = ''Consider decluttering - too many items can block energy flow''"

definition rec_good :: string where
  "rec_good = [CHR 0xE2, CHR 0x9C, CHR 0x93]
     @ '' Your room design shows good feng shui balance!''"

text \<open>\<open>recommendations.push(m)\<close>\<close>

definition push :: "string list \<Rightarrow> string \<Rightarrow> string list" where
  "push recs m = recs @ [m]"

text \<open>\<open>placed.some(e => e.type === t)\<close>\<close>

definition some_type :: "placed_item list \<Rightarrow> string \<Rightarrow> bool" where
  "some_type placed t = list_ex (\<lambda>e. item_type e = t) placed"

definition generateRecommendations ::
  "element_counts \<Rightarrow> energy_balance \<Rightarrow> placed_item list \<Rightarrow> string \<Rightarrow> string list" where
  "generateRecommendations elements en placed roomType =
    (let recs = [];
         recs = (if wood elements < 2 then push recs rec_wood else recs);
         recs = (if fire elements = 0 then push recs rec_fire else recs);
         recs = (if water elements = 0 then push recs rec_water else recs);
         recs = (if earth elements < 2 then push recs rec_earth else recs);
         recs = (if metal elements = 0 then push recs rec_metal else recs);
         totalEnergy = yin en + yang en;
         yangRatio = js_div (yang en) totalEnergy;
         recs = (if js_gt yangRatio (7 / 10) then push recs rec_too_yang
                 else if js_lt yangRatio (3 / 10) then push recs rec_too_yin
                 else recs);
         recs =
           (if roomType = ''bedroom'' then
              let recs = (if \<not> some_type placed ''plant'' then push recs rec_plants else recs);
                  recs = (if some_type placed ''mirror'' then push recs rec_mirror else recs)
              in recs
            else recs);
         recs = (if length placed > 15 then push recs rec_declutter else recs);
         recs = (if length recs = 0 then push recs rec_good else recs)
     in recs)"

subsection \<open>The scorer\<close>

text \<open>\<open>elementCounts[data.element]++\<close>\<close>

fun incr_element :: "element \<Rightarrow> element_counts \<Rightarrow> element_counts" where
  "incr_element Wood c = c\<lparr>wood := wood c + 1\<rparr>"
| "incr_element Fire c = c\<lparr>fire := fire c + 1\<rparr>"
| "incr_element Earth c = c\<lparr>earth := earth c + 1\<rparr>"
| "incr_element Metal c = c\<lparr>metal := metal c + 1\<rparr>"
| "incr_element Water c = c\<lparr>water := water c + 1\<rparr>"

text \<open>\<open>energyBalance[key]++\<close>. The caller has turned \<open>neutral\<close> into \<open>yin\<close> before, so the
  third equation is never reached; there the source would leave \<open>yin\<close> and \<open>yang\<close> alone.\<close>

fun incr_energy :: "energy \<Rightarrow> energy_balance \<Rightarrow> energy_balance" where
  "incr_energy Yin b = b\<lparr>yin := yin b + 1\<rparr>"
| "incr_energy Yang b = b\<lparr>yang := yang b + 1\<rparr>"
| "incr_energy Neutral b = b"

text \<open>The body of the \<open>forEach\<close> callback, on the pair of the two tallies. An inherited value
  passes the test \<open>if (data)\<close>; its \<open>element\<close> and \<open>energy\<close> are \<open>undefined\<close>, so both
  increments go to the key \<open>undefined\<close>, whose value becomes \<open>NaN\<close> and stays so.\<close>

definition tally :: "element_counts \<times> energy_balance \<Rightarrow> placed_item
    \<Rightarrow> element_counts \<times> energy_balance" where
  "tally acc item =
    (case elementFengShuiData (item_type item) of
       Undefined \<Rightarrow> acc
     | Entry data \<Rightarrow>
         (incr_element (element data) (fst acc),
          incr_energy (if energy data = Neutral then Yin else energy data) (snd acc))
     | Inherited \<Rightarrow>
         ((fst acc)\<lparr>undefined_element := True\<rparr>, (snd acc)\<lparr>undefined_energy := True\<rparr>))"

definition no_elements :: element_counts where
  "no_elements =
     \<lparr>wood = 0, fire = 0, earth = 0, metal = 0, water = 0, undefined_element = False\<rparr>"

definition no_energy :: energy_balance where
  "no_energy = \<lparr>yin = 0, yang = 0, undefined_energy = False\<rparr>"

text \<open>The weighted sum and its rounding; \<open>NaN\<close> times 0.3 is \<open>NaN\<close>, and so are the sum and
  its rounding.\<close>

fun weighted_round :: "int js \<Rightarrow> int \<Rightarrow> int \<Rightarrow> int \<Rightarrow> int js" where
  "weighted_round (Num b) e s f =
     Num (Math_round
       ((of_int b * (3 / 10)) + (of_int e * (25 / 100)) + (of_int s * (25 / 100)) +
        (of_int f * (20 / 100))))"
| "weighted_round NaN e s f = NaN"

definition calculateDesignFengShui :: "placed_item list \<Rightarrow> string \<Rightarrow> analysis" where
  "calculateDesignFengShui elements roomType =
    (let (elementCounts, energyBalance) = foldl tally (no_elements, no_energy) elements;
         elementBalance = calculateElementBalanceScore elementCounts;
         energyScore = calculateEnergyBalanceScore energyBalance;
         spacialScore = calculateSpacialScore elements;
         functionalScore = calculateFunctionalScore elements roomType;
         overallScore = weighted_round elementBalance energyScore spacialScore functionalScore
     in \<lparr>overallScore = overallScore,
         elementBalance = elementBalance,
         energyScore = energyScore,
         spacialScore = spacialScore,
         functionalScore = functionalScore,
         elementCounts = elementCounts,
         energyBalance = energyBalance,
         recommendations =
           generateRecommendations elementCounts energyBalance elements roomType\<rparr>)"

subsection \<open>The specification's vocabulary\<close>

text \<open>An item that the catalog knows, and an item whose type is an inherited name.\<close>

definition is_catalogued :: "placed_item \<Rightarrow> bool" where
  "is_catalogued i =
     (case elementFengShuiData (item_type i) of Entry d \<Rightarrow> True | _ \<Rightarrow> False)"

definition is_inherited :: "placed_item \<Rightarrow> bool" where
  "is_inherited i = (elementFengShuiData (item_type i) = Inherited)"

definition catalogued :: "placed_item list \<Rightarrow> placed_item list" where
  "catalogued elements = filter is_catalogued elements"

definition inherited_type :: "placed_item list \<Rightarrow> bool" where
  "inherited_type elements = list_ex is_inherited elements"

definition has_element :: "element \<Rightarrow> placed_item \<Rightarrow> bool" where
  "has_element el i =
     (case elementFengShuiData (item_type i) of Entry d \<Rightarrow> element d = el | _ \<Rightarrow> False)"

text \<open>An item counts as yang when the catalog says \<open>yang\<close>, and as yin when it says \<open>yin\<close> or
  \<open>neutral\<close>.\<close>

definition counts_as_yang :: "placed_item \<Rightarrow> bool" where
  "counts_as_yang i =
     (case elementFengShuiData (item_type i) of Entry d \<Rightarrow> energy d = Yang | _ \<Rightarrow> False)"

definition counts_as_yin :: "placed_item \<Rightarrow> bool" where
  "counts_as_yin i =
     (case elementFengShuiData (item_type i) of
        Entry d \<Rightarrow> energy d = Yin \<or> energy d = Neutral
      | _ \<Rightarrow> False)"

definition count_element :: "element \<Rightarrow> placed_item list \<Rightarrow> nat" where
  "count_element el elements = length (filter (has_element el) elements)"

definition count_yang :: "placed_item list \<Rightarrow> nat" where
  "count_yang elements = length (filter counts_as_yang elements)"

definition count_yin :: "placed_item list \<Rightarrow> nat" where
  "count_yin elements = length (filter counts_as_yin elements)"

text \<open>The sum over the five elements of the absolute deviation of the element's count from
  the even split, a fifth of the number of catalogued items.\<close>

definition total_deviation :: "placed_item list \<Rightarrow> rat" where
  "total_deviation elements =
     (\<Sum>el \<leftarrow> [Wood, Fire, Earth, Metal, Water].
        \<bar>of_nat (count_element el elements) - of_nat (length (catalogued elements)) / 5\<bar>)"

text \<open>The exact element-balance value, before any rounding: 100 less 50 times the deviation
  per item, not below 0.\<close>

definition balance_value :: "placed_item list \<Rightarrow> rat" where
  "balance_value elements =
     max 0 (100 - 50 * (total_deviation elements / of_nat (length (catalogued elements))))"

text \<open>The same value as the doubles compute it from five counts: each operation is followed
  by the rounding \<open>fl\<close>, the sum is taken from the left, starting at 0.\<close>

definition double_balance_value :: "nat \<Rightarrow> nat \<Rightarrow> nat \<Rightarrow> nat \<Rightarrow> nat \<Rightarrow> rat" where
  "double_balance_value a b c d e =
    (let total = of_nat (a + b + c + d + e);
         ideal = fl (total / 5);
         dev = (\<lambda>n. \<bar>fl (of_nat n - ideal)\<bar>);
         variance = fl (fl (fl (fl (fl (0 + dev a) + dev b) + dev c) + dev d) + dev e)
     in max 0 (fl (100 - fl (fl (variance / total) * 50))))"

text \<open>The exact value for five counts, of which one at least is positive.\<close>

definition exact_balance_value :: "nat \<Rightarrow> nat \<Rightarrow> nat \<Rightarrow> nat \<Rightarrow> nat \<Rightarrow> rat" where
  "exact_balance_value a b c d e =
    (let total = of_nat (a + b + c + d + e) :: rat in
     100 - 50 * ((\<bar>of_nat a - total / 5\<bar> + \<bar>of_nat b - total / 5\<bar> + \<bar>of_nat c - total / 5\<bar>
       + \<bar>of_nat d - total / 5\<bar> + \<bar>of_nat e - total / 5\<bar>) / total))"

text \<open>The three-tier bucket of a yang share.\<close>

definition energy_bucket :: "rat \<Rightarrow> int" where
  "energy_bucket share =
     (if 4 / 10 \<le> share \<and> share \<le> 6 / 10 then 100
      else if 3 / 10 \<le> share \<and> share \<le> 7 / 10 then 80
      else 60)"

text \<open>The step function of the item count.\<close>

definition clutter_step :: "nat \<Rightarrow> int" where
  "clutter_step n =
     (if n < 5 then 90 else if n < 10 then 85 else if n < 15 then 75
      else if n < 20 then 65 else 50)"

text \<open>Is an item of the given type among the placed ones?\<close>

definition present :: "string \<Rightarrow> placed_item list \<Rightarrow> bool" where
  "present t elements = (t \<in> item_type ` set elements)"

text \<open>A rule is a condition with its message; the rules that fire contribute their messages,
  in the order of the rules.\<close>

definition fired :: "(bool \<times> string) list \<Rightarrow> string list" where
  "fired rules = map snd (filter fst rules)"

definition element_rules :: "element_counts \<Rightarrow> (bool \<times> string) list" where
  "element_rules c =
     [(wood c < 2, rec_wood), (fire c = 0, rec_fire), (water c = 0, rec_water),
      (earth c < 2, rec_earth), (metal c = 0, rec_metal)]"

text \<open>The yang share of an empty tally is no number, and neither energy rule fires on it.\<close>

definition energy_rules :: "energy_balance \<Rightarrow> (bool \<times> string) list" where
  "energy_rules b =
     [(0 < yin b + yang b \<and> of_nat (yang b) / of_nat (yin b + yang b) > (7 / 10 :: rat),
       rec_too_yang),
      (0 < yin b + yang b \<and> of_nat (yang b) / of_nat (yin b + yang b) < (3 / 10 :: rat),
       rec_too_yin)]"

definition room_rules :: "placed_item list \<Rightarrow> string \<Rightarrow> (bool \<times> string) list" where
  "room_rules placed roomType =
     [(roomType = ''bedroom'' \<and> \<not> present ''plant'' placed, rec_plants),
      (roomType = ''bedroom'' \<and> present ''mirror'' placed, rec_mirror)]"

definition clutter_rules :: "placed_item list \<Rightarrow> (bool \<times> string) list" where
  "clutter_rules placed = [(length placed > 15, rec_declutter)]"

definition all_rules ::
  "element_counts \<Rightarrow> energy_balance \<Rightarrow> placed_item list \<Rightarrow> string \<Rightarrow> (bool \<times> string) list" where
  "all_rules c b placed roomType =
     element_rules c @ energy_rules b @ room_rules placed roomType @ clutter_rules placed"

text \<open>A placed item of a given type, at the origin of the canvas; the scorer looks at the type
  only.\<close>

definition item :: "string \<Rightarrow> placed_item" where
  "item t = \<lparr>item_id = ''element_0'', item_type = t, pos_x = 0, pos_y = 0, icon = []\<rparr>"

text \<open>The two tallies of an item list, as the \<open>forEach\<close> loop leaves them.\<close>

definition tallied_elements :: "placed_item list \<Rightarrow> element_counts" where
  "tallied_elements elements =
     \<lparr>wood = count_element Wood elements, fire = count_element Fire elements,
      earth = count_element Earth elements, metal = count_element Metal elements,
      water = count_element Water elements, undefined_element = inherited_type elements\<rparr>"

definition tallied_energy :: "placed_item list \<Rightarrow> energy_balance" where
  "tallied_energy elements =
     \<lparr>yin = count_yin elements, yang = count_yang elements,
      undefined_energy = inherited_type elements\<rparr>"

subsection \<open>Sample inputs\<close>

definition five_plants_and_tv :: "placed_item list" where
  "five_plants_and_tv = replicate 5 (item ''plant'') @ [item ''tv'']"

definition balanced_office :: "placed_item list" where
  "balanced_office = map item [''plant'', ''tv'', ''bed'', ''clock'', ''mirror'', ''rug'',
     ''desk'', ''vase'', ''curtain'']"

text \<open>A television, a bed, a clock and five mirrors: the counts are 0, 1, 1, 1, 5, and the
  exact element-balance value is 57.5.\<close>

definition tie_room :: "placed_item list" where
  "tie_room = map item [''tv'', ''bed'', ''clock'', ''mirror'', ''mirror'', ''mirror'',
     ''mirror'', ''mirror'']"

text \<open>The ten messages of the rules, in the order of the rules.\<close>

definition messages :: "string list" where
  "messages = [rec_wood, rec_fire, rec_water, rec_earth, rec_metal, rec_too_yang, rec_too_yin,
     rec_plants, rec_mirror, rec_declutter]"

section \<open>Auxiliary facts\<close>

subsection \<open>The rounding to the nearest double\<close>

text \<open>The exponent puts the significand between \<open>2 ^ 52\<close> and \<open>2 ^ 53\<close>, so the rounding
  changes a number by at most one part in \<open>2 ^ 53\<close>.\<close>

lemma round_half_even_error: "\<bar>of_int (round_half_even m) - m\<bar> \<le> 1 / 2"
proof -
  have "of_int \<lfloor>m\<rfloor> \<le> m" "m < of_int \<lfloor>m\<rfloor> + 1"
    by linarith+
  then show ?thesis
    by (auto simp add: round_half_even_def Let_def)
qed

lemma ulp_exponent_bounds:
  assumes "x \<noteq> 0"
  shows "2 powi (ulp_exponent x + 52) \<le> \<bar>x\<bar>" and "\<bar>x\<bar> < 2 powi (ulp_exponent x + 53)"
proof -
  obtain p q where pq: "quotient_of \<bar>x\<bar> = (p, q)"
    by (cases "quotient_of \<bar>x\<bar>")
  have q: "0 < q" using pq by (rule quotient_of_denom_pos)
  have x: "\<bar>x\<bar> = of_int p / of_int q" using pq by (rule quotient_of_div)
  have "0 < \<bar>x\<bar>" using assms by simp
  then have p: "0 < p" using x q by (simp add: zero_less_divide_iff)
  define bp where "bp = bitlen p"
  define bq where "bq = bitlen q"
  have bp1: "1 \<le> bp" and bq1: "1 \<le> bq"
    using p q by (simp_all add: bp_def bq_def bitlen_alt_def)
  from bitlen_bounds [OF p] have pb: "2 ^ nat (bp - 1) \<le> p" "p < 2 ^ nat bp"
    by (simp_all add: bp_def)
  from bitlen_bounds [OF q] have qb: "2 ^ nat (bq - 1) \<le> q" "q < 2 ^ nat bq"
    by (simp_all add: bq_def)
  have P: "(2::rat) powi (bp - 1) \<le> of_int p" "of_int p < (2::rat) powi bp"
  proof -
    have "(2::rat) powi (bp - 1) = of_int (2 ^ nat (bp - 1))"
      using bp1 by (simp add: power_int_def)
    also have "\<dots> \<le> of_int p" using pb(1) by (simp only: of_int_le_iff)
    finally show "(2::rat) powi (bp - 1) \<le> of_int p" .
    have "(of_int p :: rat) < of_int (2 ^ nat bp)" using pb(2) by (simp only: of_int_less_iff)
    also have "\<dots> = 2 powi bp" using bp1 by (simp add: power_int_def)
    finally show "of_int p < (2::rat) powi bp" .
  qed
  have Q: "(2::rat) powi (bq - 1) \<le> of_int q" "of_int q < (2::rat) powi bq"
  proof -
    have "(2::rat) powi (bq - 1) = of_int (2 ^ nat (bq - 1))"
      using bq1 by (simp add: power_int_def)
    also have "\<dots> \<le> of_int q" using qb(1) by (simp only: of_int_le_iff)
    finally show "(2::rat) powi (bq - 1) \<le> of_int q" .
    have "(of_int q :: rat) < of_int (2 ^ nat bq)" using qb(2) by (simp only: of_int_less_iff)
    also have "\<dots> = 2 powi bq" using bq1 by (simp add: power_int_def)
    finally show "of_int q < (2::rat) powi bq" .
  qed
  have qpos: "(0::rat) < of_int q" using q by simp
  have lower: "2 powi (bp - bq - 1) < \<bar>x\<bar>"
  proof -
    have "(2::rat) powi (bp - bq - 1) * of_int q < 2 powi (bp - bq - 1) * 2 powi bq"
      using Q(2) by (simp add: mult_strict_left_mono)
    also have "\<dots> = 2 powi (bp - 1)"
      by (simp add: power_int_add [symmetric])
    also have "\<dots> \<le> of_int p" by (rule P(1))
    finally show ?thesis
      using qpos by (simp add: x pos_less_divide_eq)
  qed
  have upper: "\<bar>x\<bar> < 2 powi (bp - bq + 1)"
  proof -
    have "(of_int p :: rat) < 2 powi bp" by (rule P(2))
    also have "\<dots> = 2 powi (bp - bq + 1) * 2 powi (bq - 1)"
      by (simp add: power_int_add [symmetric])
    also have "\<dots> \<le> 2 powi (bp - bq + 1) * of_int q"
      using Q(1) by (simp add: mult_left_mono)
    finally show ?thesis
      using qpos by (simp add: x pos_divide_less_eq)
  qed
  have e: "ulp_exponent x =
      (if \<bar>x\<bar> < 2 powi (bp - bq) then bp - bq - 53 else bp - bq - 52)"
    by (simp add: ulp_exponent_def pq bp_def bq_def Let_def)
  show "2 powi (ulp_exponent x + 52) \<le> \<bar>x\<bar>"
  proof (cases "\<bar>x\<bar> < 2 powi (bp - bq)")
    case True
    then have eq: "ulp_exponent x + 52 = bp - bq - 1" by (simp add: e)
    show ?thesis unfolding eq using lower by (rule less_imp_le)
  next
    case False
    then have eq: "ulp_exponent x + 52 = bp - bq" by (simp add: e)
    show ?thesis unfolding eq using False by simp
  qed
  show "\<bar>x\<bar> < 2 powi (ulp_exponent x + 53)"
  proof (cases "\<bar>x\<bar> < 2 powi (bp - bq)")
    case True
    then have eq: "ulp_exponent x + 53 = bp - bq" by (simp add: e)
    show ?thesis unfolding eq using True .
  next
    case False
    then have eq: "ulp_exponent x + 53 = bp - bq + 1" by (simp add: e)
    show ?thesis unfolding eq using upper .
  qed
qed

lemma fl_zero: "fl 0 = 0"
  by (simp add: fl_def)

lemma fl_error: "\<bar>fl x - x\<bar> \<le> \<bar>x\<bar> / 2 ^ 53"
proof (cases "x = 0")
  case True
  then show ?thesis by (simp add: fl_def)
next
  case False
  define e where "e = ulp_exponent x"
  define s :: rat where "s = 2 powi e"
  have s: "0 < s" by (simp add: s_def)
  have "fl x - x = (of_int (round_half_even (x / s)) - x / s) * s"
    using False s by (simp add: fl_def e_def s_def algebra_simps)
  then have "\<bar>fl x - x\<bar> = \<bar>of_int (round_half_even (x / s)) - x / s\<bar> * s"
    using s by (simp add: abs_mult)
  also have "\<dots> \<le> 1 / 2 * s"
    using round_half_even_error [of "x / s"] s by (simp add: mult_right_mono)
  also have "\<dots> \<le> \<bar>x\<bar> / 2 ^ 53"
  proof -
    have "2 powi (e + 52) \<le> \<bar>x\<bar>"
      using ulp_exponent_bounds(1) [OF False] by (simp add: e_def)
    moreover have "(2::rat) powi (e + 52) = s * 2 ^ 52"
      by (simp add: s_def power_int_add)
    ultimately have "s * 2 ^ 52 \<le> \<bar>x\<bar>" by simp
    then show ?thesis by simp
  qed
  finally show ?thesis .
qed

subsection \<open>The accuracy of the element-balance value\<close>

text \<open>The thirteen roundings of the doubles move the value by less than \<open>1300 / 2 ^ 53\<close>.
  The exact value is a multiple of one over twice the total, so that, for a total below
  \<open>2 ^ 32\<close>, it is a tie or farther from every tie than the doubles can move it.\<close>

lemma two_53: "(2::rat) ^ 53 = 9007199254740992"
  by simp

lemma fl_error_le:
  assumes "\<bar>x\<bar> \<le> B"
  shows "\<bar>fl x - x\<bar> \<le> B / 2 ^ 53"
proof -
  have "\<bar>x\<bar> / 2 ^ 53 \<le> B / 2 ^ 53"
    using assms by (simp add: divide_right_mono)
  with fl_error [of x] show ?thesis by (rule order_trans)
qed

lemma deviation_close:
  fixes n T i :: rat
  assumes "0 \<le> n" and "n \<le> T" and "\<bar>i - T / 5\<bar> \<le> T / 5 / 2 ^ 53"
  shows "\<bar>\<bar>fl (n - i)\<bar> - \<bar>n - T / 5\<bar>\<bar> \<le> 6 / 5 * T / 2 ^ 53"
    and "\<bar>fl (n - i)\<bar> \<le> T"
proof -
  have T: "0 \<le> T" using assms by simp
  have x: "\<bar>n - i\<bar> \<le> T"
    using assms unfolding two_53 by linarith
  have e: "\<bar>fl (n - i) - (n - i)\<bar> \<le> T / 2 ^ 53"
    using x by (rule fl_error_le)
  have d: "\<bar>fl (n - i) - (n - T / 5)\<bar> \<le> 6 / 5 * T / 2 ^ 53"
    using e assms(3) unfolding two_53 by linarith
  have "\<bar>\<bar>fl (n - i)\<bar> - \<bar>n - T / 5\<bar>\<bar> \<le> \<bar>fl (n - i) - (n - T / 5)\<bar>"
    by (rule abs_triangle_ineq3)
  with d show "\<bar>\<bar>fl (n - i)\<bar> - \<bar>n - T / 5\<bar>\<bar> \<le> 6 / 5 * T / 2 ^ 53"
    by linarith
  have "\<bar>n - T / 5\<bar> \<le> 4 / 5 * T"
    using assms(1,2) T by linarith
  then show "\<bar>fl (n - i)\<bar> \<le> T"
    using d T unfolding two_53 by linarith
qed

lemma sum_step:
  fixes s D d E T :: rat
  assumes "\<bar>s - D\<bar> \<le> E" and "0 \<le> D" and "0 \<le> d" and "D + d \<le> 17 / 10 * T" and "E \<le> T"
  shows "\<bar>fl (s + d) - (D + d)\<bar> \<le> E + 27 / 10 * T / 2 ^ 53"
proof -
  have "\<bar>s + d\<bar> \<le> 27 / 10 * T"
    using assms by linarith
  then have "\<bar>fl (s + d) - (s + d)\<bar> \<le> 27 / 10 * T / 2 ^ 53"
    by (rule fl_error_le)
  then show ?thesis
    using assms(1) by linarith
qed

lemma quotient_close:
  fixes v w T k :: rat
  assumes "0 < T" and "\<bar>v - w\<bar> \<le> k * T / 2 ^ 53"
  shows "\<bar>v / T - w / T\<bar> \<le> k / 2 ^ 53"
proof -
  have "\<bar>v / T - w / T\<bar> = \<bar>v - w\<bar> / T"
    using assms(1) by (simp add: diff_divide_distrib [symmetric])
  also have "\<dots> \<le> (k * T / 2 ^ 53) / T"
    using assms(2) by (rule divide_right_mono) (use assms(1) in simp)
  also have "\<dots> = k / 2 ^ 53"
    using assms(1) by simp
  finally show ?thesis .
qed

lemma exact_balance_value_range:
  assumes "0 < a + b + c + d + e"
  shows "20 \<le> exact_balance_value a b c d e" and "exact_balance_value a b c d e \<le> 100"
proof -
  define T :: rat where "T = of_nat (a + b + c + d + e)"
  define A :: rat where "A = of_nat a"
  define B :: rat where "B = of_nat b"
  define C :: rat where "C = of_nat c"
  define D :: rat where "D = of_nat d"
  define E :: rat where "E = of_nat e"
  note defs = A_def B_def C_def D_def E_def
  have T: "0 < T" using assms unfolding T_def by (simp only: of_nat_0_less_iff)
  have nn: "0 \<le> A" "0 \<le> B" "0 \<le> C" "0 \<le> D" "0 \<le> E" by (simp_all add: defs)
  have sum: "A + B + C + D + E = T" by (simp add: defs T_def)
  define V where "V = \<bar>A - T / 5\<bar> + \<bar>B - T / 5\<bar> + \<bar>C - T / 5\<bar> + \<bar>D - T / 5\<bar> + \<bar>E - T / 5\<bar>"
  have V: "0 \<le> V" "V \<le> 8 / 5 * T"
    unfolding V_def using nn sum by linarith+
  have r: "0 \<le> V / T" "V / T \<le> 8 / 5"
    using V T by (simp_all add: pos_divide_le_eq)
  have ex: "exact_balance_value a b c d e = 100 - 50 * (V / T)"
    by (simp add: exact_balance_value_def Let_def V_def T_def defs)
  show "20 \<le> exact_balance_value a b c d e" "exact_balance_value a b c d e \<le> 100"
    unfolding ex using r by linarith+
qed

lemma double_balance_value_close:
  assumes "0 < a + b + c + d + e"
  shows "\<bar>double_balance_value a b c d e - exact_balance_value a b c d e\<bar> \<le> 1300 / 2 ^ 53"
proof -
  define T :: rat where "T = of_nat (a + b + c + d + e)"
  define A :: rat where "A = of_nat a"
  define B :: rat where "B = of_nat b"
  define C :: rat where "C = of_nat c"
  define D :: rat where "D = of_nat d"
  define E :: rat where "E = of_nat e"
  note defs = A_def B_def C_def D_def E_def
  have T: "0 < T" using assms unfolding T_def by (simp only: of_nat_0_less_iff)
  have nn: "0 \<le> A" "0 \<le> B" "0 \<le> C" "0 \<le> D" "0 \<le> E" by (simp_all add: defs)
  have sum: "A + B + C + D + E = T" by (simp add: defs T_def)
  have le: "A \<le> T" "B \<le> T" "C \<le> T" "D \<le> T" "E \<le> T"
    using nn sum by linarith+
  define i where "i = fl (T / 5)"
  have i: "\<bar>i - T / 5\<bar> \<le> T / 5 / 2 ^ 53"
    unfolding i_def using T by (intro fl_error_le) simp
  define xa where "xa = \<bar>A - T / 5\<bar>"
  define xb where "xb = \<bar>B - T / 5\<bar>"
  define xc where "xc = \<bar>C - T / 5\<bar>"
  define xd where "xd = \<bar>D - T / 5\<bar>"
  define xe where "xe = \<bar>E - T / 5\<bar>"
  define da where "da = \<bar>fl (A - i)\<bar>"
  define db where "db = \<bar>fl (B - i)\<bar>"
  define dc where "dc = \<bar>fl (C - i)\<bar>"
  define dd where "dd = \<bar>fl (D - i)\<bar>"
  define de where "de = \<bar>fl (E - i)\<bar>"
  have ca: "\<bar>da - xa\<bar> \<le> 6 / 5 * T / 2 ^ 53"
    unfolding da_def xa_def using nn(1) le(1) i by (rule deviation_close(1))
  have cb: "\<bar>db - xb\<bar> \<le> 6 / 5 * T / 2 ^ 53"
    unfolding db_def xb_def using nn(2) le(2) i by (rule deviation_close(1))
  have cc: "\<bar>dc - xc\<bar> \<le> 6 / 5 * T / 2 ^ 53"
    unfolding dc_def xc_def using nn(3) le(3) i by (rule deviation_close(1))
  have cd: "\<bar>dd - xd\<bar> \<le> 6 / 5 * T / 2 ^ 53"
    unfolding dd_def xd_def using nn(4) le(4) i by (rule deviation_close(1))
  have ce: "\<bar>de - xe\<bar> \<le> 6 / 5 * T / 2 ^ 53"
    unfolding de_def xe_def using nn(5) le(5) i by (rule deviation_close(1))
  have dn: "0 \<le> da" "0 \<le> db" "0 \<le> dc" "0 \<le> dd" "0 \<le> de"
    by (simp_all add: da_def db_def dc_def dd_def de_def)
  define V where "V = xa + xb + xc + xd + xe"
  have V: "0 \<le> V" "V \<le> 8 / 5 * T"
    unfolding V_def xa_def xb_def xc_def xd_def xe_def using nn sum by linarith+
  have Dsum: "\<bar>(da + db + dc + dd + de) - V\<bar> \<le> 6 * T / 2 ^ 53"
    unfolding V_def using ca cb cc cd ce by linarith
  have D5: "da + db + dc + dd + de \<le> 17 / 10 * T"
    using Dsum V T unfolding two_53 by linarith
  define s1 where "s1 = fl (0 + da)"
  define s2 where "s2 = fl (s1 + db)"
  define s3 where "s3 = fl (s2 + dc)"
  define s4 where "s4 = fl (s3 + dd)"
  define s5 where "s5 = fl (s4 + de)"
  have e1: "\<bar>s1 - (0 + da)\<bar> \<le> 0 + 27 / 10 * T / 2 ^ 53"
    unfolding s1_def using dn D5 T by (intro sum_step) simp_all
  have e2: "\<bar>s2 - (da + db)\<bar> \<le> 27 / 10 * T / 2 ^ 53 + 27 / 10 * T / 2 ^ 53"
    unfolding s2_def
  proof (rule sum_step)
    show "\<bar>s1 - da\<bar> \<le> 27 / 10 * T / 2 ^ 53" using e1 by simp
    show "0 \<le> da" "0 \<le> db" by (rule dn)+
    show "da + db \<le> 17 / 10 * T" using D5 dn by linarith
    show "27 / 10 * T / 2 ^ 53 \<le> T" using T unfolding two_53 by linarith
  qed
  have e3: "\<bar>s3 - (da + db + dc)\<bar> \<le> 54 / 10 * T / 2 ^ 53 + 27 / 10 * T / 2 ^ 53"
    unfolding s3_def
  proof (rule sum_step)
    show "\<bar>s2 - (da + db)\<bar> \<le> 54 / 10 * T / 2 ^ 53" using e2 by simp
    show "0 \<le> da + db" "0 \<le> dc" using dn by simp_all
    show "da + db + dc \<le> 17 / 10 * T" using D5 dn by linarith
    show "54 / 10 * T / 2 ^ 53 \<le> T" using T unfolding two_53 by linarith
  qed
  have e4: "\<bar>s4 - (da + db + dc + dd)\<bar> \<le> 81 / 10 * T / 2 ^ 53 + 27 / 10 * T / 2 ^ 53"
    unfolding s4_def
  proof (rule sum_step)
    show "\<bar>s3 - (da + db + dc)\<bar> \<le> 81 / 10 * T / 2 ^ 53" using e3 by simp
    show "0 \<le> da + db + dc" "0 \<le> dd" using dn by simp_all
    show "da + db + dc + dd \<le> 17 / 10 * T" using D5 dn by linarith
    show "81 / 10 * T / 2 ^ 53 \<le> T" using T unfolding two_53 by linarith
  qed
  have e5: "\<bar>s5 - (da + db + dc + dd + de)\<bar> \<le> 108 / 10 * T / 2 ^ 53 + 27 / 10 * T / 2 ^ 53"
    unfolding s5_def
  proof (rule sum_step)
    show "\<bar>s4 - (da + db + dc + dd)\<bar> \<le> 108 / 10 * T / 2 ^ 53" using e4 by simp
    show "0 \<le> da + db + dc + dd" "0 \<le> de" using dn by simp_all
    show "da + db + dc + dd + de \<le> 17 / 10 * T" by (rule D5)
    show "108 / 10 * T / 2 ^ 53 \<le> T" using T unfolding two_53 by linarith
  qed
  have sV: "\<bar>s5 - V\<bar> \<le> 20 * T / 2 ^ 53"
    using e5 Dsum T unfolding two_53 by linarith
  have r: "\<bar>s5 / T - V / T\<bar> \<le> 20 / 2 ^ 53"
    using T sV by (rule quotient_close)
  have rs: "0 \<le> V / T" "V / T \<le> 8 / 5"
    using V T by (simp_all add: pos_divide_le_eq)
  have rb: "\<bar>s5 / T\<bar> \<le> 17 / 10"
    using r rs unfolding two_53 by linarith
  define q where "q = fl (s5 / T)"
  have "\<bar>q - s5 / T\<bar> \<le> 17 / 10 / 2 ^ 53"
    unfolding q_def using rb by (rule fl_error_le)
  with r have q: "\<bar>q - V / T\<bar> \<le> 22 / 2 ^ 53"
    unfolding two_53 by linarith
  have qb: "\<bar>q * 50\<bar> \<le> 85"
    using q rs unfolding two_53 by linarith
  define p where "p = fl (q * 50)"
  have "\<bar>p - q * 50\<bar> \<le> 85 / 2 ^ 53"
    unfolding p_def using qb by (rule fl_error_le)
  with q have p: "\<bar>p - 50 * (V / T)\<bar> \<le> 1185 / 2 ^ 53"
    unfolding two_53 by linarith
  have pb: "\<bar>100 - p\<bar> \<le> 101"
    using p rs unfolding two_53 by linarith
  define s where "s = fl (100 - p)"
  have "\<bar>s - (100 - p)\<bar> \<le> 101 / 2 ^ 53"
    unfolding s_def using pb by (rule fl_error_le)
  with p have s: "\<bar>s - (100 - 50 * (V / T))\<bar> \<le> 1300 / 2 ^ 53"
    unfolding two_53 by linarith
  have "0 \<le> s"
    using s rs unfolding two_53 by linarith
  then have m: "max 0 s = s" by simp
  have dv: "double_balance_value a b c d e = max 0 s"
    by (simp add: double_balance_value_def Let_def s_def p_def q_def s5_def s4_def s3_def
        s2_def s1_def da_def db_def dc_def dd_def de_def i_def T_def defs)
  have ex: "exact_balance_value a b c d e = 100 - 50 * (V / T)"
    by (simp add: exact_balance_value_def Let_def V_def xa_def xb_def xc_def xd_def xe_def
        T_def defs)
  show ?thesis
    unfolding dv m ex by (rule s)
qed

lemma fifth_abs: "\<bar>A - T / 5\<bar> = \<bar>5 * A - T\<bar> / (5::rat)"
proof -
  have "A - T / 5 = (5 * A - T) / 5" by simp
  then show ?thesis by (simp only: abs_divide)
qed

lemma exact_balance_value_integral:
  assumes "0 < a + b + c + d + e"
  shows "\<exists>N :: int. exact_balance_value a b c d e * (2 * of_nat (a + b + c + d + e)) = of_int N"
proof -
  define T :: rat where "T = of_nat (a + b + c + d + e)"
  have T: "0 < T" using assms unfolding T_def by (simp only: of_nat_0_less_iff)
  define S :: int where "S = \<bar>5 * int a - int (a + b + c + d + e)\<bar>
    + \<bar>5 * int b - int (a + b + c + d + e)\<bar> + \<bar>5 * int c - int (a + b + c + d + e)\<bar>
    + \<bar>5 * int d - int (a + b + c + d + e)\<bar> + \<bar>5 * int e - int (a + b + c + d + e)\<bar>"
  have S: "(of_int S :: rat) = \<bar>5 * of_nat a - T\<bar> + \<bar>5 * of_nat b - T\<bar> + \<bar>5 * of_nat c - T\<bar>
    + \<bar>5 * of_nat d - T\<bar> + \<bar>5 * of_nat e - T\<bar>"
    unfolding S_def T_def by (simp only: of_int_add of_int_abs of_int_diff of_int_mult
        of_int_of_nat_eq of_int_numeral)
  have "exact_balance_value a b c d e = 100 - 50 * ((of_int S / 5) / T)"
    unfolding exact_balance_value_def Let_def T_def [symmetric] fifth_abs S
    by (simp add: add_divide_distrib)
  then have "exact_balance_value a b c d e * (2 * T) = 200 * T - 20 * of_int S"
    using T by (simp add: field_simps)
  also have "\<dots> = of_int (200 * int (a + b + c + d + e) - 20 * S)"
    by (simp add: T_def)
  finally show ?thesis unfolding T_def by blast
qed

lemma nearest_of_close:
  fixes s x t :: rat and N :: int and T :: nat
  assumes "x * (2 * of_nat T) = of_int N" and "0 < T" and "T < 2 ^ 32"
    and "\<bar>s - x\<bar> \<le> 1300 / 2 ^ 53"
  shows "\<bar>of_int (Math_round s) - x\<bar> \<le> 1 / 2"
proof -
  define k where "k = Math_round s"
  define t :: rat where "t = of_nat T"
  have t: "0 < t" "t < 2 ^ 32"
    using assms(2,3) unfolding t_def by (simp_all add: of_nat_less_numeral_power_cancel_iff)
  have k: "of_int k \<le> s + 1 / 2" "s + 1 / 2 < of_int k + 1"
    unfolding k_def Math_round_def by linarith+
  have xN: "x * (2 * t) = of_int N" using assms(1) by (simp add: t_def)
  have small: "y * (2 * t) < 1" if "0 \<le> y" "y \<le> 1300 / 2 ^ 53" for y :: rat
  proof -
    have "y * (2 * t) \<le> 1300 / 2 ^ 53 * (2 * t)"
      using that t by (simp add: mult_right_mono)
    also have "\<dots> < 1300 / 2 ^ 53 * (2 * 2 ^ 32)"
      using t by (simp add: mult_strict_left_mono)
    also have "\<dots> < 1" by simp
    finally show ?thesis .
  qed
  have up: "x \<le> of_int k + 1 / 2"
  proof (rule ccontr)
    assume "\<not> x \<le> of_int k + 1 / 2"
    then have gt: "of_int k + 1 / 2 < x" by simp
    then have "(of_int k + 1 / 2) * (2 * t) < x * (2 * t)"
      using t by (simp add: mult_strict_right_mono)
    then have "(of_int ((2 * k + 1) * int T) :: rat) < of_int N"
      unfolding xN [symmetric] by (simp add: t_def algebra_simps)
    then have "(2 * k + 1) * int T < N" by (simp only: of_int_less_iff)
    then have "(2 * k + 1) * int T + 1 \<le> N" by simp
    then have "(of_int ((2 * k + 1) * int T + 1) :: rat) \<le> of_int N"
      by (simp only: of_int_le_iff)
    then have "(of_int k + 1 / 2) * (2 * t) + 1 \<le> x * (2 * t)"
      unfolding xN [symmetric] by (simp add: t_def algebra_simps)
    then have one: "1 \<le> (x - (of_int k + 1 / 2)) * (2 * t)"
      by (simp add: algebra_simps)
    have "x - (of_int k + 1 / 2) \<le> 1300 / 2 ^ 53"
      using assms(4) k(2) by linarith
    with gt have "(x - (of_int k + 1 / 2)) * (2 * t) < 1"
      by (intro small) simp_all
    with one show False by simp
  qed
  have low: "of_int k - 1 / 2 \<le> x"
  proof (rule ccontr)
    assume "\<not> of_int k - 1 / 2 \<le> x"
    then have lt: "x < of_int k - 1 / 2" by simp
    then have "x * (2 * t) < (of_int k - 1 / 2) * (2 * t)"
      using t by (simp add: mult_strict_right_mono)
    then have "of_int N < (of_int ((2 * k - 1) * int T) :: rat)"
      unfolding xN [symmetric] by (simp add: t_def algebra_simps)
    then have "N < (2 * k - 1) * int T" by (simp only: of_int_less_iff)
    then have "N + 1 \<le> (2 * k - 1) * int T" by simp
    then have "(of_int (N + 1) :: rat) \<le> of_int ((2 * k - 1) * int T)"
      by (simp only: of_int_le_iff)
    then have "(of_int N :: rat) + 1 \<le> (of_int k - 1 / 2) * (2 * t)"
      by (simp add: t_def algebra_simps)
    then have "x * (2 * t) + 1 \<le> (of_int k - 1 / 2) * (2 * t)"
      by (simp only: xN)
    then have one: "1 \<le> ((of_int k - 1 / 2) - x) * (2 * t)"
      by (simp add: algebra_simps)
    have "(of_int k - 1 / 2) - x \<le> 1300 / 2 ^ 53"
      using assms(4) k(1) by linarith
    with lt have "((of_int k - 1 / 2) - x) * (2 * t) < 1"
      by (intro small) simp_all
    with one show False by simp
  qed
  from up low show ?thesis unfolding k_def by linarith
qed

lemma Math_round_double_balance_value:
  assumes "0 < a + b + c + d + e"
  shows "20 \<le> Math_round (double_balance_value a b c d e)"
    and "Math_round (double_balance_value a b c d e) \<le> 100"
    and "a + b + c + d + e < 2 ^ 32 \<Longrightarrow>
      \<bar>of_int (Math_round (double_balance_value a b c d e)) - exact_balance_value a b c d e\<bar>
        \<le> 1 / 2"
proof -
  note c = double_balance_value_close [OF assms]
  note r = exact_balance_value_range [OF assms]
  show "20 \<le> Math_round (double_balance_value a b c d e)"
    using c r(1) unfolding Math_round_def two_53 by linarith
  show "Math_round (double_balance_value a b c d e) \<le> 100"
    using c r(2) unfolding Math_round_def two_53 by linarith
  assume b: "a + b + c + d + e < 2 ^ 32"
  from exact_balance_value_integral [OF assms] obtain N :: int
    where "exact_balance_value a b c d e * (2 * of_nat (a + b + c + d + e)) = of_int N" ..
  from this assms b c
  show "\<bar>of_int (Math_round (double_balance_value a b c d e)) - exact_balance_value a b c d e\<bar>
      \<le> 1 / 2"
    by (rule nearest_of_close)
qed

subsection \<open>The tally\<close>

lemma tally_step:
  "tally (c, b) i =
     (c\<lparr>wood := wood c + (if has_element Wood i then 1 else 0),
        fire := fire c + (if has_element Fire i then 1 else 0),
        earth := earth c + (if has_element Earth i then 1 else 0),
        metal := metal c + (if has_element Metal i then 1 else 0),
        water := water c + (if has_element Water i then 1 else 0),
        undefined_element := undefined_element c \<or> is_inherited i\<rparr>,
      b\<lparr>yin := yin b + (if counts_as_yin i then 1 else 0),
        yang := yang b + (if counts_as_yang i then 1 else 0),
        undefined_energy := undefined_energy b \<or> is_inherited i\<rparr>)"
proof (cases "elementFengShuiData (item_type i)")
  case (Entry d)
  then show ?thesis
    by (cases "element d"; cases "energy d")
       (simp_all add: tally_def has_element_def counts_as_yin_def counts_as_yang_def
         is_inherited_def)
next
  case Inherited
  then show ?thesis
    by (simp add: tally_def has_element_def counts_as_yin_def counts_as_yang_def
        is_inherited_def)
next
  case Undefined
  then show ?thesis
    by (simp add: tally_def has_element_def counts_as_yin_def counts_as_yang_def
        is_inherited_def)
qed

lemma foldl_tally:
  "foldl tally (c, b) elements =
     (c\<lparr>wood := wood c + count_element Wood elements,
        fire := fire c + count_element Fire elements,
        earth := earth c + count_element Earth elements,
        metal := metal c + count_element Metal elements,
        water := water c + count_element Water elements,
        undefined_element := undefined_element c \<or> inherited_type elements\<rparr>,
      b\<lparr>yin := yin b + count_yin elements,
        yang := yang b + count_yang elements,
        undefined_energy := undefined_energy b \<or> inherited_type elements\<rparr>)"
proof (induction elements arbitrary: c b)
  case Nil
  show ?case by (simp add: count_element_def count_yin_def count_yang_def inherited_type_def)
next
  case (Cons i elements)
  show ?case
    by (simp add: tally_step Cons.IH count_element_def count_yin_def count_yang_def
        inherited_type_def disj_assoc)
qed

lemma foldl_tally_start:
  "foldl tally (no_elements, no_energy) elements = (tallied_elements elements, tallied_energy elements)"
  by (simp add: foldl_tally no_elements_def no_energy_def tallied_elements_def tallied_energy_def)

lemma calculateDesignFengShui_fields:
  "elementCounts (calculateDesignFengShui elements roomType) = tallied_elements elements"
  "energyBalance (calculateDesignFengShui elements roomType) = tallied_energy elements"
  "elementBalance (calculateDesignFengShui elements roomType) =
     calculateElementBalanceScore (tallied_elements elements)"
  "energyScore (calculateDesignFengShui elements roomType) =
     calculateEnergyBalanceScore (tallied_energy elements)"
  "spacialScore (calculateDesignFengShui elements roomType) = calculateSpacialScore elements"
  "functionalScore (calculateDesignFengShui elements roomType) =
     calculateFunctionalScore elements roomType"
  "recommendations (calculateDesignFengShui elements roomType) =
     generateRecommendations (tallied_elements elements) (tallied_energy elements) elements roomType"
  by (simp_all add: calculateDesignFengShui_def foldl_tally_start Let_def)

lemma overallScore_unfold:
  "overallScore (calculateDesignFengShui elements roomType) =
     weighted_round (calculateElementBalanceScore (tallied_elements elements))
       (calculateEnergyBalanceScore (tallied_energy elements))
       (calculateSpacialScore elements) (calculateFunctionalScore elements roomType)"
  by (simp add: calculateDesignFengShui_def foldl_tally_start Let_def)

lemma element_cases_count:
  "(if has_element Wood i then 1 else 0) + (if has_element Fire i then 1 else 0) +
   (if has_element Earth i then 1 else 0) + (if has_element Metal i then 1 else 0) +
   (if has_element Water i then 1 else 0) = (if is_catalogued i then 1 else (0::nat))"
proof (cases "elementFengShuiData (item_type i)")
  case (Entry d)
  then show ?thesis by (cases "element d") (simp_all add: has_element_def is_catalogued_def)
next
  case Inherited
  then show ?thesis by (simp add: has_element_def is_catalogued_def)
next
  case Undefined
  then show ?thesis by (simp add: has_element_def is_catalogued_def)
qed

lemma count_element_total:
  "count_element Wood elements + count_element Fire elements + count_element Earth elements +
   count_element Metal elements + count_element Water elements = length (catalogued elements)"
proof (induction elements)
  case Nil
  show ?case by (simp add: count_element_def catalogued_def)
next
  case (Cons i elements)
  have "count_element Wood (i # elements) + count_element Fire (i # elements) +
        count_element Earth (i # elements) + count_element Metal (i # elements) +
        count_element Water (i # elements) =
        ((if has_element Wood i then 1 else 0) + (if has_element Fire i then 1 else 0) +
         (if has_element Earth i then 1 else 0) + (if has_element Metal i then 1 else 0) +
         (if has_element Water i then 1 else 0)) +
        (count_element Wood elements + count_element Fire elements +
         count_element Earth elements + count_element Metal elements +
         count_element Water elements)"
    by (simp add: count_element_def)
  also have "\<dots> = (if is_catalogued i then 1 else 0) + length (catalogued elements)"
    by (simp only: element_cases_count Cons.IH)
  also have "\<dots> = length (catalogued (i # elements))"
    by (simp add: catalogued_def)
  finally show ?case .
qed

lemma energy_cases_count:
  "(if counts_as_yin i then 1 else 0) + (if counts_as_yang i then 1 else 0) =
   (if is_catalogued i then 1 else (0::nat))"
proof (cases "elementFengShuiData (item_type i)")
  case (Entry d)
  then show ?thesis
    by (cases "energy d") (simp_all add: counts_as_yin_def counts_as_yang_def is_catalogued_def)
next
  case Inherited
  then show ?thesis by (simp add: counts_as_yin_def counts_as_yang_def is_catalogued_def)
next
  case Undefined
  then show ?thesis by (simp add: counts_as_yin_def counts_as_yang_def is_catalogued_def)
qed

lemma count_energy_total:
  "count_yin elements + count_yang elements = length (catalogued elements)"
proof (induction elements)
  case Nil
  show ?case by (simp add: count_yin_def count_yang_def catalogued_def)
next
  case (Cons i elements)
  have "count_yin (i # elements) + count_yang (i # elements) =
        ((if counts_as_yin i then 1 else 0) + (if counts_as_yang i then 1 else 0)) +
        (count_yin elements + count_yang elements)"
    by (simp add: count_yin_def count_yang_def)
  also have "\<dots> = (if is_catalogued i then 1 else 0) + length (catalogued elements)"
    by (simp only: energy_cases_count Cons.IH)
  also have "\<dots> = length (catalogued (i # elements))"
    by (simp add: catalogued_def)
  finally show ?case .
qed

lemma Math_round_of_int: "Math_round (of_int n) = n"
  unfolding Math_round_def by linarith

lemma Math_round_between:
  assumes "of_int a \<le> v" and "v \<le> of_int b"
  shows "a \<le> Math_round v \<and> Math_round v \<le> b"
  using assms unfolding Math_round_def by linarith

subsection \<open>The element balance of a tally\<close>

lemma calculateElementBalanceScore_NaN:
  assumes "undefined_element counts"
  shows "calculateElementBalanceScore counts = NaN"
  using assms by (simp add: calculateElementBalanceScore_def values_of_def Let_def)

lemma calculateElementBalanceScore_double:
  assumes "\<not> undefined_element counts"
  shows "calculateElementBalanceScore counts =
     (if wood counts + fire counts + earth counts + metal counts + water counts = 0 then Num 0
      else Num (Math_round (double_balance_value (wood counts) (fire counts) (earth counts)
        (metal counts) (water counts))))"
  using assms
  by (simp add: calculateElementBalanceScore_def values_of_def Let_def double_balance_value_def)

lemma calculateElementBalanceScore_tallied:
  "calculateElementBalanceScore (tallied_elements elements) =
     (if inherited_type elements then NaN
      else if catalogued elements = [] then Num 0
      else Num (Math_round (double_balance_value (count_element Wood elements)
        (count_element Fire elements) (count_element Earth elements)
        (count_element Metal elements) (count_element Water elements))))"
proof (cases "inherited_type elements")
  case True
  then show ?thesis
    by (simp add: calculateElementBalanceScore_NaN tallied_elements_def)
next
  case False
  then have "\<not> undefined_element (tallied_elements elements)"
    by (simp add: tallied_elements_def)
  from calculateElementBalanceScore_double [OF this] False count_element_total [of elements]
  show ?thesis
    by (simp add: tallied_elements_def)
qed

lemma balance_value_exact:
  assumes "catalogued elements \<noteq> []"
  shows "balance_value elements = exact_balance_value (count_element Wood elements)
      (count_element Fire elements) (count_element Earth elements)
      (count_element Metal elements) (count_element Water elements)"
proof -
  have pos: "0 < count_element Wood elements + count_element Fire elements +
      count_element Earth elements + count_element Metal elements + count_element Water elements"
    using assms by (simp add: count_element_total)
  have "balance_value elements = max 0 (exact_balance_value (count_element Wood elements)
      (count_element Fire elements) (count_element Earth elements)
      (count_element Metal elements) (count_element Water elements))"
    unfolding exact_balance_value_def Let_def count_element_total
    by (simp add: balance_value_def total_deviation_def add.assoc)
  with exact_balance_value_range(1) [OF pos] show ?thesis by simp
qed

subsection \<open>The other sub-scores and the recommendations\<close>

lemma calculateEnergyBalanceScore_bucket:
  "calculateEnergyBalanceScore b =
     (if yin b + yang b = 0 then 50
      else energy_bucket (of_nat (yang b) / of_nat (yin b + yang b)))"
  by (simp add: calculateEnergyBalanceScore_def energy_bucket_def Let_def)

lemma calculateEnergyBalanceScore_tallied:
  "calculateEnergyBalanceScore (tallied_energy elements) =
     (if catalogued elements = [] then 50
      else energy_bucket (of_nat (count_yang elements) / of_nat (length (catalogued elements))))"
proof -
  have t: "yin (tallied_energy elements) + yang (tallied_energy elements) =
      length (catalogued elements)"
    using count_energy_total [of elements] by (simp add: tallied_energy_def)
  have y: "yang (tallied_energy elements) = count_yang elements"
    by (simp add: tallied_energy_def)
  show ?thesis
    unfolding calculateEnergyBalanceScore_bucket t length_0_conv
    by (simp only: y)
qed

lemma calculateSpacialScore_step: "calculateSpacialScore elements = clutter_step (length elements)"
  by (simp add: calculateSpacialScore_def clutter_step_def Let_def)

lemma js_includes_present: "js_includes (map item_type elements) t = present t elements"
  by (simp add: js_includes_def present_def)

lemma some_type_present: "some_type placed t = present t placed"
  by (auto simp add: some_type_def list_ex_iff present_def)

lemma calculateFunctionalScore_bedroom:
  "calculateFunctionalScore elements ''bedroom'' =
     70 + (if present ''bed'' elements then 10 else 0)
        + (if present ''plant'' elements then 5 else 0)
        - (if present ''mirror'' elements \<and> present ''bed'' elements then 10 else 0)
        + (if present ''lamp'' elements then 5 else 0)"
  by (simp add: calculateFunctionalScore_def js_includes_present Let_def)

lemma calculateFunctionalScore_living:
  "calculateFunctionalScore elements ''living'' =
     70 + (if present ''sofa'' elements then 10 else 0)
        + (if present ''plant'' elements then 5 else 0)
        + (if present ''lamp'' elements \<or> present ''chandelier'' elements then 5 else 0)"
  by (simp add: calculateFunctionalScore_def js_includes_present Let_def)

lemma calculateFunctionalScore_office:
  "calculateFunctionalScore elements ''office'' =
     70 + (if present ''desk'' elements then 10 else 0)
        + (if present ''chair'' elements then 5 else 0)
        + (if present ''plant'' elements then 5 else 0)
        + (if present ''bookshelf'' elements then 5 else 0)"
  by (simp add: calculateFunctionalScore_def js_includes_present Let_def)

lemma calculateFunctionalScore_other:
  assumes "roomType \<noteq> ''bedroom''" and "roomType \<noteq> ''living''" and "roomType \<noteq> ''office''"
  shows "calculateFunctionalScore elements roomType = 70"
  using assms by (simp add: calculateFunctionalScore_def Let_def)

lemma calculateFunctionalScore_bounds:
  "70 \<le> calculateFunctionalScore elements roomType \<and>
   calculateFunctionalScore elements roomType \<le> 95"
proof -
  consider "roomType = ''bedroom''" | "roomType = ''living''" | "roomType = ''office''"
    | "roomType \<noteq> ''bedroom''" "roomType \<noteq> ''living''" "roomType \<noteq> ''office''"
    by blast
  then show ?thesis
  proof cases
    case 1
    then show ?thesis by (simp add: calculateFunctionalScore_bedroom)
  next
    case 2
    then show ?thesis by (simp add: calculateFunctionalScore_living)
  next
    case 3
    then show ?thesis by (simp add: calculateFunctionalScore_office)
  next
    case 4
    then show ?thesis by (simp add: calculateFunctionalScore_other)
  qed
qed

lemma fired_append: "fired (xs @ ys) = fired xs @ fired ys"
  by (simp add: fired_def)

lemma push_if: "(if c then push recs m else recs) = recs @ fired [(c, m)]"
  by (simp add: push_def fired_def)

lemma energy_step:
  "(if js_gt (js_div y t) (7 / 10) then push recs m1
    else if js_lt (js_div y t) (3 / 10) then push recs m2 else recs) =
   recs @ fired [(0 < t \<and> of_nat y / of_nat t > (7 / 10 :: rat), m1),
                 (0 < t \<and> of_nat y / of_nat t < (3 / 10 :: rat), m2)]"
  by (simp add: js_gt_def js_lt_def js_div_def push_def fired_def)

lemma room_step:
  "(if roomType = ''bedroom'' then
      (if some_type placed ''mirror''
       then push (if \<not> some_type placed ''plant'' then push recs m1 else recs) m2
       else (if \<not> some_type placed ''plant'' then push recs m1 else recs))
    else recs) =
   recs @ fired [(roomType = ''bedroom'' \<and> \<not> present ''plant'' placed, m1),
                 (roomType = ''bedroom'' \<and> present ''mirror'' placed, m2)]"
  by (simp add: some_type_present push_def fired_def)

lemma last_step:
  "(if length recs = 0 then push recs m else recs) = (if recs = [] then [m] else recs)"
  by (simp add: push_def)

lemma generateRecommendations_fired:
  "generateRecommendations c b placed roomType =
     (if fired (all_rules c b placed roomType) = [] then [rec_good]
      else fired (all_rules c b placed roomType))"
proof -
  have "generateRecommendations c b placed roomType =
      (let recs = [] @ fired [(wood c < 2, rec_wood)] @ fired [(fire c = 0, rec_fire)] @
           fired [(water c = 0, rec_water)] @ fired [(earth c < 2, rec_earth)] @
           fired [(metal c = 0, rec_metal)] @ fired (energy_rules b) @
           fired (room_rules placed roomType) @ fired (clutter_rules placed)
       in if recs = [] then [rec_good] else recs)"
    unfolding generateRecommendations_def Let_def
    unfolding energy_step room_step last_step
    unfolding push_if energy_rules_def room_rules_def clutter_rules_def
    by (simp only: append_assoc)
  also have "\<dots> = (if fired (all_rules c b placed roomType) = [] then [rec_good]
      else fired (all_rules c b placed roomType))"
    unfolding all_rules_def element_rules_def Let_def
    by (simp add: fired_append fired_def)
  finally show ?thesis .
qed

lemma in_fired: "(True, m) \<in> set rules \<Longrightarrow> m \<in> set (fired rules)"
  by (force simp add: fired_def)

lemma fired_in_recommendations:
  assumes "(True, m) \<in> set (all_rules c b placed roomType)"
  shows "m \<in> set (generateRecommendations c b placed roomType)"
proof -
  from assms have "m \<in> set (fired (all_rules c b placed roomType))"
    by (rule in_fired)
  then show ?thesis
    by (auto simp add: generateRecommendations_fired)
qed

lemma messages_distinct: "distinct (rec_good # messages)"
  by (simp add: messages_def rec_wood_def rec_fire_def rec_water_def rec_earth_def rec_metal_def
      rec_too_yang_def rec_too_yin_def rec_plants_def rec_mirror_def rec_declutter_def
      rec_good_def)

lemma all_rules_messages: "map snd (all_rules c b placed roomType) = messages"
  by (simp add: all_rules_def element_rules_def energy_rules_def room_rules_def
      clutter_rules_def messages_def)

lemma fired_iff:
  assumes "distinct (map snd rules)" and "(cond, m) \<in> set rules"
  shows "m \<in> set (fired rules) \<longleftrightarrow> cond"
  using assms
proof (induction rules)
  case Nil
  then show ?case by simp
next
  case (Cons r rules)
  then show ?case
    by (cases r) (force simp add: fired_def)
qed

lemma fired_subset: "set (fired rules) \<subseteq> snd ` set rules"
  by (auto simp add: fired_def)

lemma rule_fires_iff:
  assumes "(cond, m) \<in> set (all_rules c b placed roomType)"
  shows "m \<in> set (generateRecommendations c b placed roomType) \<longleftrightarrow> cond"
proof -
  have d: "distinct (map snd (all_rules c b placed roomType))"
    using messages_distinct by (simp add: all_rules_messages)
  have m: "m \<in> set messages"
    using assms all_rules_messages [of c b placed roomType]
    by (metis image_eqI set_map snd_conv)
  then have ng: "m \<noteq> rec_good"
    using messages_distinct by auto
  from fired_iff [OF d assms]
  show ?thesis
    using ng by (auto simp add: generateRecommendations_fired)
qed

lemma good_iff:
  "rec_good \<in> set (generateRecommendations c b placed roomType) \<longleftrightarrow>
     fired (all_rules c b placed roomType) = []"
proof -
  have "rec_good \<notin> set (fired (all_rules c b placed roomType))"
    using fired_subset [of "all_rules c b placed roomType"] messages_distinct
      all_rules_messages [of c b placed roomType]
    by (metis distinct.simps(2) set_map subsetD)
  then show ?thesis
    by (auto simp add: generateRecommendations_fired)
qed

lemma mirror_warning_in_bedroom:
  assumes "present ''mirror'' elements"
  shows "rec_mirror \<in> set (recommendations (calculateDesignFengShui elements ''bedroom''))"
proof -
  have "(True, rec_mirror) \<in> set (all_rules (tallied_elements elements)
      (tallied_energy elements) elements ''bedroom'')"
    using assms by (simp add: all_rules_def room_rules_def)
  from fired_in_recommendations [OF this] show ?thesis
    by (simp add: calculateDesignFengShui_fields)
qed

lemma bed_and_mirror_present:
  "present ''mirror'' [item ''bed'', item ''mirror'']"
  "present ''bed'' [item ''bed'', item ''mirror'']"
  "\<not> present ''plant'' [item ''bed'', item ''mirror'']"
  "\<not> present ''lamp'' [item ''bed'', item ''mirror'']"
  "\<not> present ''sofa'' [item ''bed'', item ''mirror'']"
  "\<not> present ''chandelier'' [item ''bed'', item ''mirror'']"
  by (simp_all add: present_def item_def)

subsection \<open>The element balance of a result\<close>

lemma lookups:
  "elementFengShuiData ''tv'' = Entry (mk_data Fire Yang ''entertainment'' ''fame'')"
  "elementFengShuiData ''plant'' = Entry (mk_data Wood Yang ''life'' ''health'')"
  "elementFengShuiData ''table'' = Entry (mk_data Wood Neutral ''center'' ''health'')"
  "elementFengShuiData ''bed'' = Entry (mk_data Earth Yin ''important'' ''relationship'')"
  "elementFengShuiData ''aquarium'' = Undefined"
  "elementFengShuiData ''constructor'' = Inherited"
  by (simp_all add: elementFengShuiData_def elementFengShuiData_table_def inherited_names_def)

lemma elementBalance_cases:
  "inherited_type elements \<Longrightarrow>
     elementBalance (calculateDesignFengShui elements roomType) = NaN"
  "\<not> inherited_type elements \<Longrightarrow> catalogued elements = [] \<Longrightarrow>
     elementBalance (calculateDesignFengShui elements roomType) = Num 0"
  "\<not> inherited_type elements \<Longrightarrow> catalogued elements \<noteq> [] \<Longrightarrow>
     elementBalance (calculateDesignFengShui elements roomType) =
       Num (Math_round (double_balance_value (count_element Wood elements)
         (count_element Fire elements) (count_element Earth elements)
         (count_element Metal elements) (count_element Water elements)))"
  by (simp_all add: calculateDesignFengShui_fields calculateElementBalanceScore_tallied)

lemma rounded_double_balance_value:
  assumes "catalogued elements \<noteq> []"
  shows "20 \<le> Math_round (double_balance_value (count_element Wood elements)
         (count_element Fire elements) (count_element Earth elements)
         (count_element Metal elements) (count_element Water elements))"
    and "Math_round (double_balance_value (count_element Wood elements)
         (count_element Fire elements) (count_element Earth elements)
         (count_element Metal elements) (count_element Water elements)) \<le> 100"
    and "length elements < 2 ^ 32 \<Longrightarrow>
      \<bar>of_int (Math_round (double_balance_value (count_element Wood elements)
         (count_element Fire elements) (count_element Earth elements)
         (count_element Metal elements) (count_element Water elements)))
       - balance_value elements\<bar> \<le> 1 / 2"
proof -
  have pos: "0 < count_element Wood elements + count_element Fire elements +
      count_element Earth elements + count_element Metal elements + count_element Water elements"
    using assms by (simp add: count_element_total)
  note m = Math_round_double_balance_value [OF pos]
  show "20 \<le> Math_round (double_balance_value (count_element Wood elements)
         (count_element Fire elements) (count_element Earth elements)
         (count_element Metal elements) (count_element Water elements))"
    by (rule m(1))
  show "Math_round (double_balance_value (count_element Wood elements)
         (count_element Fire elements) (count_element Earth elements)
         (count_element Metal elements) (count_element Water elements)) \<le> 100"
    by (rule m(2))
  assume "length elements < 2 ^ 32"
  moreover have "length (catalogued elements) \<le> length elements"
    by (simp add: catalogued_def)
  ultimately have "count_element Wood elements + count_element Fire elements +
      count_element Earth elements + count_element Metal elements + count_element Water elements
      < 2 ^ 32"
    by (simp add: count_element_total)
  from m(3) [OF this] show "\<bar>of_int (Math_round (double_balance_value (count_element Wood elements)
         (count_element Fire elements) (count_element Earth elements)
         (count_element Metal elements) (count_element Water elements)))
       - balance_value elements\<bar> \<le> 1 / 2"
    by (simp only: balance_value_exact [OF assms])
qed

text \<open>Off a tie the nearest integer is the only one within a half.\<close>

lemma nearest_unique:
  fixes v :: rat
  assumes "\<bar>of_int k - v\<bar> \<le> 1 / 2" and "\<bar>of_int m - v\<bar> < 1 / 2"
  shows "k = m"
proof -
  have "\<bar>(of_int k :: rat) - of_int m\<bar> < 1"
    using assms by linarith
  then have "\<bar>(of_int (k - m) :: rat)\<bar> < of_int 1" by simp
  then have "\<bar>k - m\<bar> < 1"
    by (simp only: of_int_abs [symmetric] of_int_less_iff)
  then show ?thesis by simp
qed

lemma elementBalance_off_tie:
  assumes "\<not> inherited_type elements" and "catalogued elements \<noteq> []"
    and "length elements < 2 ^ 32" and "\<bar>of_int m - balance_value elements\<bar> < 1 / 2"
  shows "elementBalance (calculateDesignFengShui elements roomType) = Num m"
  using rounded_double_balance_value(3) [OF assms(2,3)] assms(4)
  by (simp add: elementBalance_cases(3) [OF assms(1,2)] nearest_unique)

lemma all_tv_tallies:
  assumes "list_all (\<lambda>i. item_type i = ''tv'') elements"
  shows "tallied_elements elements =
      \<lparr>wood = 0, fire = length elements, earth = 0, metal = 0, water = 0,
       undefined_element = False\<rparr>"
    and "tallied_energy elements = \<lparr>yin = 0, yang = length elements, undefined_energy = False\<rparr>"
    and "catalogued elements = elements"
proof -
  have f: "filter (has_element el) elements = (if el = Fire then elements else [])" for el
    using assms
    by (induction elements) (auto simp add: has_element_def lookups mk_data_def)
  have i: "\<not> inherited_type elements"
    using assms
    by (induction elements) (auto simp add: inherited_type_def is_inherited_def lookups)
  from f i show "tallied_elements elements =
      \<lparr>wood = 0, fire = length elements, earth = 0, metal = 0, water = 0,
       undefined_element = False\<rparr>"
    by (simp add: tallied_elements_def count_element_def)
  have "filter counts_as_yang elements = elements" "filter counts_as_yin elements = []"
    using assms
    by (induction elements) (auto simp add: counts_as_yang_def counts_as_yin_def lookups mk_data_def)
  with i show "tallied_energy elements = \<lparr>yin = 0, yang = length elements, undefined_energy = False\<rparr>"
    by (simp add: tallied_energy_def count_yang_def count_yin_def)
  show "catalogued elements = elements"
    using assms
    by (induction elements) (auto simp add: catalogued_def is_catalogued_def lookups)
qed

subsection \<open>The sample inputs\<close>

lemma bed_and_mirror_facts:
  "\<not> inherited_type [item ''bed'', item ''mirror'']"
  "catalogued [item ''bed'', item ''mirror''] \<noteq> []"
  "balance_value [item ''bed'', item ''mirror''] = 40"
  "calculateEnergyBalanceScore (tallied_energy [item ''bed'', item ''mirror'']) = 100"
  "calculateSpacialScore [item ''bed'', item ''mirror''] = 90"
  "calculateFunctionalScore [item ''bed'', item ''mirror''] ''bedroom'' = 70"
  by code_simp+

lemma sample_scores:
  "elementBalance (calculateDesignFengShui [item ''bed'', item ''mirror''] ''bedroom'') = Num 40"
  "energyScore (calculateDesignFengShui [item ''bed'', item ''mirror''] ''bedroom'') = 100"
  "spacialScore (calculateDesignFengShui [item ''bed'', item ''mirror''] ''bedroom'') = 90"
  "functionalScore (calculateDesignFengShui [item ''bed'', item ''mirror''] ''bedroom'') = 70"
proof -
  show "elementBalance (calculateDesignFengShui [item ''bed'', item ''mirror''] ''bedroom'') = Num 40"
    by (rule elementBalance_off_tie) (simp_all add: bed_and_mirror_facts)
qed (simp_all add: calculateDesignFengShui_fields bed_and_mirror_facts)

lemma five_plants_and_tv_facts:
  "\<not> inherited_type five_plants_and_tv"
  "catalogued five_plants_and_tv \<noteq> []"
  "length five_plants_and_tv = 6"
  "balance_value five_plants_and_tv = 110 / 3"
  "total_deviation five_plants_and_tv = 38 / 5"
  "length (catalogued five_plants_and_tv) = 6"
  by code_simp+

lemma five_plants_and_tv_balance:
  "elementBalance (calculateDesignFengShui five_plants_and_tv roomType) = Num 37"
  by (rule elementBalance_off_tie) (simp_all add: five_plants_and_tv_facts)

lemma one_tv_facts:
  "\<not> inherited_type [item ''tv'']"
  "catalogued [item ''tv''] \<noteq> []"
  "balance_value [item ''tv''] = 20"
  "total_deviation [item ''tv''] = 8 / 5"
  "length (catalogued [item ''tv'']) = 1"
  by code_simp+

lemma one_tv_balance:
  "elementBalance (calculateDesignFengShui [item ''tv''] roomType) = Num 20"
  by (rule elementBalance_off_tie) (simp_all add: one_tv_facts)

lemma one_aquarium_facts:
  "\<not> inherited_type [item ''aquarium'']"
  "catalogued [item ''aquarium''] = []"
  by code_simp+

lemma one_constructor_facts:
  "inherited_type [item ''constructor'']"
  "catalogued [item ''constructor''] = []"
  by code_simp+

text \<open>The tie: the exact value is 57.5, the doubles reach 57.49999999999999, and the score is
  57.\<close>

lemma tie_room_facts:
  "\<not> inherited_type tie_room"
  "catalogued tie_room \<noteq> []"
  "length tie_room = 8"
  "balance_value tie_room = 115 / 2"
  "tallied_elements tie_room =
     \<lparr>wood = 0, fire = 1, earth = 1, metal = 1, water = 5, undefined_element = False\<rparr>"
  by code_simp+

lemma tie_counts_score:
  "calculateElementBalanceScore
     \<lparr>wood = 0, fire = 1, earth = 1, metal = 1, water = 5, undefined_element = False\<rparr> = Num 57"
  by code_simp

lemma tie_room_balance:
  "elementBalance (calculateDesignFengShui tie_room roomType) = Num 57"
  by (simp only: calculateDesignFengShui_fields tie_room_facts tie_counts_score)

lemma table_bed_tv:
  "catalogued [item ''table'', item ''bed'', item ''tv''] = [item ''table'', item ''bed'', item ''tv'']"
  "count_yin [item ''table'', item ''bed'', item ''tv''] = 2"
  "count_yang [item ''table'', item ''bed'', item ''tv''] = 1"
  by (simp_all add: catalogued_def count_yin_def count_yang_def counts_as_yin_def
      counts_as_yang_def is_catalogued_def item_def lookups mk_data_def)

lemma balanced_office_fires_nothing:
  "fired (element_rules (elementCounts (calculateDesignFengShui balanced_office ''office'')) @
     energy_rules (energyBalance (calculateDesignFengShui balanced_office ''office'')) @
     room_rules balanced_office ''office'' @ clutter_rules balanced_office) = []"
  by (simp only: calculateDesignFengShui_fields) code_simp

lemma twenty_tvs_value:
  assumes "length elements = 20" and "list_all (\<lambda>i. item_type i = ''tv'') elements"
  shows "balance_value elements = 20"
proof -
  note t = all_tv_tallies [OF assms(2)]
  have c: "count_element Wood elements = 0" "count_element Fire elements = 20"
      "count_element Earth elements = 0" "count_element Metal elements = 0"
      "count_element Water elements = 0"
    using t(1) assms(1) by (simp_all add: tallied_elements_def)
  show ?thesis
    by (simp add: balance_value_def total_deviation_def c t(3) assms(1))
qed

lemma twenty_tvs_input:
  "length (replicate 20 (item ''tv'')) = 20"
  "list_all (\<lambda>i. item_type i = ''tv'') (replicate 20 (item ''tv''))"
  by (simp_all add: list_all_iff item_def)

lemma twenty_tvs_counts:
  "calculateElementBalanceScore
     \<lparr>wood = 0, fire = 20, earth = 0, metal = 0, water = 0, undefined_element = False\<rparr> = Num 20"
  by code_simp

section \<open>The claims\<close>

subsection \<open>The overall score\<close>

text \<open>
  Claim C1. For every list of placed items and every room type, the \<open>overallScore\<close> of the
  analysis is \<open>Math.round\<close> of 0.30 times its \<open>elementBalance\<close> plus 0.25 times its
  \<open>energyScore\<close> plus 0.25 times its \<open>spacialScore\<close> plus 0.20 times its \<open>functionalScore\<close>,
  the four being the fields of the same result; where the element balance is \<open>NaN\<close>, so are
  the sum and the overall score.
\<close>

theorem overallScore_weighted_sum:
  "overallScore (calculateDesignFengShui elements roomType) =
     (case elementBalance (calculateDesignFengShui elements roomType) of
        Num balance \<Rightarrow>
          Num (Math_round
            (30 / 100 * of_int balance +
             25 / 100 * of_int (energyScore (calculateDesignFengShui elements roomType)) +
             25 / 100 * of_int (spacialScore (calculateDesignFengShui elements roomType)) +
             20 / 100 * of_int (functionalScore (calculateDesignFengShui elements roomType))))
      | NaN \<Rightarrow> NaN)"
  by (cases "calculateElementBalanceScore (tallied_elements elements)")
     (simp_all add: overallScore_unfold calculateDesignFengShui_fields mult.commute)

theorem overallScore_weighted_sum_witness:
  "overallScore (calculateDesignFengShui [item ''bed'', item ''mirror''] ''bedroom'') = Num 74"
proof -
  have "Math_round (30 / 100 * of_int 40 + 25 / 100 * of_int 100 + 25 / 100 * of_int 90
      + 20 / 100 * of_int 70) = 74"
    by code_simp
  with overallScore_weighted_sum [of "[item ''bed'', item ''mirror'']" "''bedroom''"]
  show ?thesis by (simp only: sample_scores js.case)
qed

subsection \<open>Twenty televisions\<close>

text \<open>
  Claim C2, as amended. For a list of exactly 20 items, all of type \<open>tv\<close>, and any room type,
  the element balance is exactly 20, the energy score is exactly 60, and the recommendations
  include the prompts to add wood, water, earth and metal and the warning about clutter.
\<close>

theorem twenty_tvs:
  assumes "length elements = 20" and "list_all (\<lambda>i. item_type i = ''tv'') elements"
  shows "elementBalance (calculateDesignFengShui elements roomType) = Num 20
   \<and> energyScore (calculateDesignFengShui elements roomType) = 60
   \<and> rec_wood \<in> set (recommendations (calculateDesignFengShui elements roomType))
   \<and> rec_water \<in> set (recommendations (calculateDesignFengShui elements roomType))
   \<and> rec_earth \<in> set (recommendations (calculateDesignFengShui elements roomType))
   \<and> rec_metal \<in> set (recommendations (calculateDesignFengShui elements roomType))
   \<and> rec_declutter \<in> set (recommendations (calculateDesignFengShui elements roomType))"
proof -
  let ?c = "\<lparr>wood = 0, fire = 20, earth = 0, metal = 0, water = 0, undefined_element = False\<rparr>"
  let ?b = "\<lparr>yin = 0, yang = 20, undefined_energy = False\<rparr>"
  note t = all_tv_tallies [OF assms(2)]
  have c: "tallied_elements elements = ?c" and b: "tallied_energy elements = ?b"
    using t(1,2) assms(1) by simp_all
  have i: "\<not> inherited_type elements"
    using t(1) by (simp add: tallied_elements_def)
  have ne: "catalogued elements \<noteq> []"
    using t(3) assms(1) by auto
  have eb: "elementBalance (calculateDesignFengShui elements roomType) = Num 20"
    using i ne by (rule elementBalance_off_tie)
      (simp_all add: assms(1) twenty_tvs_value [OF assms])
  have es: "calculateEnergyBalanceScore ?b = 60" by code_simp
  have r: "(True, rec_wood) \<in> set (all_rules ?c ?b elements roomType)"
      "(True, rec_water) \<in> set (all_rules ?c ?b elements roomType)"
      "(True, rec_earth) \<in> set (all_rules ?c ?b elements roomType)"
      "(True, rec_metal) \<in> set (all_rules ?c ?b elements roomType)"
      "(True, rec_declutter) \<in> set (all_rules ?c ?b elements roomType)"
    using assms(1) by (simp_all add: all_rules_def element_rules_def clutter_rules_def)
  show ?thesis
    using r [THEN fired_in_recommendations] eb
    by (simp add: calculateDesignFengShui_fields c b es)
qed

theorem twenty_tvs_witness:
  "length (replicate 20 (item ''tv'')) = 20
   \<and> list_all (\<lambda>i. item_type i = ''tv'') (replicate 20 (item ''tv''))
   \<and> elementBalance (calculateDesignFengShui (replicate 20 (item ''tv'')) ''living'') = Num 20
   \<and> energyScore (calculateDesignFengShui (replicate 20 (item ''tv'')) ''living'') = 60
   \<and> rec_declutter \<in> set (recommendations
        (calculateDesignFengShui (replicate 20 (item ''tv'')) ''living''))"
  using twenty_tvs [OF twenty_tvs_input, of "''living''"] by (simp add: twenty_tvs_input)

text \<open>The claim as stated wants the element balance near 0; it is 20, a fifth of the scale.\<close>

theorem twenty_tvs_counterexample:
  "elementBalance (calculateDesignFengShui (replicate 20 (item ''tv'')) ''living'') = Num 20"
  using all_tv_tallies(1) [OF twenty_tvs_input(2)]
  by (simp only: calculateDesignFengShui_fields twenty_tvs_input(1)) (simp only: twenty_tvs_counts)

subsection \<open>The element balance\<close>

text \<open>
  Claim C3, as amended. Take an item list none of whose types is an inherited name. The
  element counts of the result are the numbers of catalogued items of each element. When no
  item is catalogued, and so for the empty list, the element balance is 0. When at least one
  item is catalogued, the element balance is \<open>Math.round\<close> of the double value of 100 less 50
  times the quotient of the total deviation (the sum over the five elements of the absolute
  difference between the element's count and a fifth of the number of catalogued items) by
  the number of catalogued items, not below 0; and, the list being shorter than \<open>2 ^ 32\<close> as
  every array is, this integer lies within one half of the exact value.
\<close>

theorem elementBalance_formula:
  "(\<not> inherited_type elements \<longrightarrow>
      elementCounts (calculateDesignFengShui elements roomType) =
        \<lparr>wood = count_element Wood elements, fire = count_element Fire elements,
         earth = count_element Earth elements, metal = count_element Metal elements,
         water = count_element Water elements, undefined_element = False\<rparr>
    \<and> (catalogued elements = [] \<longrightarrow>
         elementBalance (calculateDesignFengShui elements roomType) = Num 0)
    \<and> (catalogued elements \<noteq> [] \<longrightarrow>
         elementBalance (calculateDesignFengShui elements roomType) =
           Num (Math_round (double_balance_value (count_element Wood elements)
             (count_element Fire elements) (count_element Earth elements)
             (count_element Metal elements) (count_element Water elements)))
       \<and> (length elements < 2 ^ 32 \<longrightarrow>
            \<bar>of_int (Math_round (double_balance_value (count_element Wood elements)
               (count_element Fire elements) (count_element Earth elements)
               (count_element Metal elements) (count_element Water elements)))
             - max 0 (100 - 50 * (total_deviation elements /
                 of_nat (length (catalogued elements))))\<bar> \<le> 1 / 2)))
   \<and> elementBalance (calculateDesignFengShui [] roomType) = Num 0"
proof -
  have a: "\<not> inherited_type elements \<longrightarrow>
      elementCounts (calculateDesignFengShui elements roomType) =
        \<lparr>wood = count_element Wood elements, fire = count_element Fire elements,
         earth = count_element Earth elements, metal = count_element Metal elements,
         water = count_element Water elements, undefined_element = False\<rparr>"
    by (simp add: calculateDesignFengShui_fields tallied_elements_def)
  have b: "\<not> inherited_type elements \<longrightarrow> catalogued elements = [] \<longrightarrow>
      elementBalance (calculateDesignFengShui elements roomType) = Num 0"
    by (simp add: elementBalance_cases(2))
  have c: "\<not> inherited_type elements \<longrightarrow> catalogued elements \<noteq> [] \<longrightarrow>
      elementBalance (calculateDesignFengShui elements roomType) =
           Num (Math_round (double_balance_value (count_element Wood elements)
             (count_element Fire elements) (count_element Earth elements)
             (count_element Metal elements) (count_element Water elements)))"
    by (simp add: elementBalance_cases(3))
  have d: "catalogued elements \<noteq> [] \<longrightarrow> length elements < 2 ^ 32 \<longrightarrow>
      \<bar>of_int (Math_round (double_balance_value (count_element Wood elements)
               (count_element Fire elements) (count_element Earth elements)
               (count_element Metal elements) (count_element Water elements)))
             - max 0 (100 - 50 * (total_deviation elements /
                 of_nat (length (catalogued elements))))\<bar> \<le> 1 / 2"
    using rounded_double_balance_value(3) [of elements]
    by (simp only: balance_value_def) blast
  have "\<not> inherited_type []" "catalogued [] = []"
    by (simp_all add: inherited_type_def catalogued_def)
  then have e: "elementBalance (calculateDesignFengShui [] roomType) = Num 0"
    by (rule elementBalance_cases(2))
  from a b c d e show ?thesis by blast
qed

theorem elementBalance_formula_witness:
  "\<not> inherited_type tie_room \<and> catalogued tie_room \<noteq> [] \<and> length tie_room < 2 ^ 32
   \<and> elementBalance (calculateDesignFengShui tie_room ''living'') = Num 57
   \<and> \<bar>of_int 57 - (115 / 2 :: rat)\<bar> \<le> 1 / 2
   \<and> \<not> inherited_type five_plants_and_tv \<and> catalogued five_plants_and_tv \<noteq> []
   \<and> elementBalance (calculateDesignFengShui five_plants_and_tv ''living'') = Num 37
   \<and> \<not> inherited_type [item ''aquarium''] \<and> catalogued [item ''aquarium''] = []
   \<and> elementBalance (calculateDesignFengShui [item ''aquarium''] ''living'') = Num 0"
proof -
  note t = elementBalance_formula [of tie_room "''living''"]
  note f = elementBalance_formula [of five_plants_and_tv "''living''"]
  note q = elementBalance_formula [of "[item ''aquarium'']" "''living''"]
  have l: "length tie_room < 2 ^ 32" by (simp add: tie_room_facts)
  from t tie_room_facts(1,2)
  have t1: "elementBalance (calculateDesignFengShui tie_room ''living'') =
      Num (Math_round (double_balance_value (count_element Wood tie_room)
        (count_element Fire tie_room) (count_element Earth tie_room)
        (count_element Metal tie_room) (count_element Water tie_room)))"
    by blast
  then have r: "Math_round (double_balance_value (count_element Wood tie_room)
        (count_element Fire tie_room) (count_element Earth tie_room)
        (count_element Metal tie_room) (count_element Water tie_room)) = 57"
    by (simp add: tie_room_balance)
  from t tie_room_facts(1,2) l
  have "\<bar>of_int (Math_round (double_balance_value (count_element Wood tie_room)
        (count_element Fire tie_room) (count_element Earth tie_room)
        (count_element Metal tie_room) (count_element Water tie_room)))
      - max 0 (100 - 50 * (total_deviation tie_room / of_nat (length (catalogued tie_room))))\<bar>
      \<le> 1 / 2"
    by blast
  then have t2: "\<bar>of_int 57 - (115 / 2 :: rat)\<bar> \<le> 1 / 2"
    unfolding r balance_value_def [symmetric] tie_room_facts(4) .
  have t3: "elementBalance (calculateDesignFengShui tie_room ''living'') = Num 57"
    using t1 by (simp only: r)
  from f five_plants_and_tv_facts(1,2)
  have "elementBalance (calculateDesignFengShui five_plants_and_tv ''living'') =
      Num (Math_round (double_balance_value (count_element Wood five_plants_and_tv)
        (count_element Fire five_plants_and_tv) (count_element Earth five_plants_and_tv)
        (count_element Metal five_plants_and_tv) (count_element Water five_plants_and_tv)))"
    by blast
  then have f1: "elementBalance (calculateDesignFengShui five_plants_and_tv ''living'') = Num 37"
    by (simp add: five_plants_and_tv_balance)
  from q one_aquarium_facts
  have q1: "elementBalance (calculateDesignFengShui [item ''aquarium''] ''living'') = Num 0"
    by blast
  from tie_room_facts(1,2) l t3 t2 five_plants_and_tv_facts(1,2) f1 one_aquarium_facts q1
  show ?thesis by blast
qed

text \<open>
  The claim as stated leaves the rounding out. One television has the value 20 and the score
  20, which fixes the factor at 50; five plants and a television have the value 110/3 and the
  score 37.
\<close>

theorem elementBalance_unrounded_counterexample:
  "elementBalance (calculateDesignFengShui [item ''tv''] ''living'') = Num 20
   \<and> max 0 (100 - 50 * (total_deviation [item ''tv''] /
        of_nat (length (catalogued [item ''tv''])))) = (20 :: rat)
   \<and> elementBalance (calculateDesignFengShui five_plants_and_tv ''living'') = Num 37
   \<and> max 0 (100 - 50 * (total_deviation five_plants_and_tv /
        of_nat (length (catalogued five_plants_and_tv)))) = (110 / 3 :: rat)
   \<and> (of_int 37 :: rat) \<noteq> 110 / 3"
  by (simp add: five_plants_and_tv_facts five_plants_and_tv_balance one_tv_facts one_tv_balance)

subsection \<open>The energy score\<close>

text \<open>
  Claim C4. When at least one item is catalogued, the yin tally is the number of catalogued
  items whose energy is yin or neutral, the yang tally is the number of those whose energy is
  yang, the two add up to the number of catalogued items, and the energy score is 100 when
  the yang share lies in [0.4, 0.6], 80 when it lies in [0.3, 0.7] outside that band, and 60
  otherwise.
\<close>

theorem energyScore_three_tiers:
  "catalogued elements \<noteq> [] \<longrightarrow>
     yin (energyBalance (calculateDesignFengShui elements roomType)) = count_yin elements
   \<and> yang (energyBalance (calculateDesignFengShui elements roomType)) = count_yang elements
   \<and> count_yin elements + count_yang elements = length (catalogued elements)
   \<and> energyScore (calculateDesignFengShui elements roomType) =
       (let share = of_nat (count_yang elements) /
                    of_nat (count_yin elements + count_yang elements) :: rat
        in if 4 / 10 \<le> share \<and> share \<le> 6 / 10 then 100
           else if 3 / 10 \<le> share \<and> share \<le> 7 / 10 then 80
           else 60)"
proof
  assume ne: "catalogued elements \<noteq> []"
  have a: "yin (energyBalance (calculateDesignFengShui elements roomType)) = count_yin elements"
    by (simp add: calculateDesignFengShui_fields tallied_energy_def)
  have b: "yang (energyBalance (calculateDesignFengShui elements roomType)) = count_yang elements"
    by (simp add: calculateDesignFengShui_fields tallied_energy_def)
  note c = count_energy_total [of elements]
  have d: "energyScore (calculateDesignFengShui elements roomType) =
      energy_bucket (of_nat (count_yang elements) / of_nat (length (catalogued elements)))"
    using ne by (simp add: calculateDesignFengShui_fields calculateEnergyBalanceScore_tallied)
  show "yin (energyBalance (calculateDesignFengShui elements roomType)) = count_yin elements
   \<and> yang (energyBalance (calculateDesignFengShui elements roomType)) = count_yang elements
   \<and> count_yin elements + count_yang elements = length (catalogued elements)
   \<and> energyScore (calculateDesignFengShui elements roomType) =
       (let share = of_nat (count_yang elements) /
                    of_nat (count_yin elements + count_yang elements) :: rat
        in if 4 / 10 \<le> share \<and> share \<le> 6 / 10 then 100
           else if 3 / 10 \<le> share \<and> share \<le> 7 / 10 then 80
           else 60)"
    unfolding a b d c energy_bucket_def Let_def by simp
qed

theorem energyScore_three_tiers_witness:
  "catalogued [item ''table'', item ''bed'', item ''tv''] \<noteq> []
   \<and> yin (energyBalance (calculateDesignFengShui [item ''table'', item ''bed'', item ''tv''] ''living'')) = 2
   \<and> yang (energyBalance (calculateDesignFengShui [item ''table'', item ''bed'', item ''tv''] ''living'')) = 1
   \<and> energyScore (calculateDesignFengShui [item ''table'', item ''bed'', item ''tv''] ''living'') = 80"
proof -
  have ne: "catalogued [item ''table'', item ''bed'', item ''tv''] \<noteq> []"
    by (simp add: table_bed_tv)
  from ne energyScore_three_tiers [of "[item ''table'', item ''bed'', item ''tv'']" "''living''"]
  show ?thesis
    by (simp add: table_bed_tv Let_def)
qed

subsection \<open>The functional score\<close>

text \<open>
  Claim C5. The functional score starts from 70. In a bedroom a bed adds 10, a plant 5 and a
  lamp 5, and a mirror together with a bed takes 10 away; in a living room a sofa adds 10, a
  plant 5, and a lamp or a chandelier 5; in an office a desk adds 10 and a chair, a plant and a
  bookshelf 5 each. For any other room type the score is the base 70, whatever the items.
  A mirror in a bedroom also puts the warning about mirrors facing the bed among the
  recommendations.
\<close>

theorem functionalScore_rules:
  "functionalScore (calculateDesignFengShui elements ''bedroom'') =
     70 + (if present ''bed'' elements then 10 else 0)
        + (if present ''plant'' elements then 5 else 0)
        - (if present ''mirror'' elements \<and> present ''bed'' elements then 10 else 0)
        + (if present ''lamp'' elements then 5 else 0)
   \<and> functionalScore (calculateDesignFengShui elements ''living'') =
     70 + (if present ''sofa'' elements then 10 else 0)
        + (if present ''plant'' elements then 5 else 0)
        + (if present ''lamp'' elements \<or> present ''chandelier'' elements then 5 else 0)
   \<and> functionalScore (calculateDesignFengShui elements ''office'') =
     70 + (if present ''desk'' elements then 10 else 0)
        + (if present ''chair'' elements then 5 else 0)
        + (if present ''plant'' elements then 5 else 0)
        + (if present ''bookshelf'' elements then 5 else 0)
   \<and> (roomType \<notin> {''bedroom'', ''living'', ''office''} \<longrightarrow>
        functionalScore (calculateDesignFengShui elements roomType) = 70)
   \<and> (present ''mirror'' elements \<longrightarrow>
        rec_mirror \<in> set (recommendations (calculateDesignFengShui elements ''bedroom'')))"
  using mirror_warning_in_bedroom [of elements]
  by (simp add: calculateDesignFengShui_fields calculateFunctionalScore_bedroom
      calculateFunctionalScore_living calculateFunctionalScore_office
      calculateFunctionalScore_other)

theorem functionalScore_rules_witness:
  "''kitchen'' \<notin> {''bedroom'', ''living'', ''office''}
   \<and> present ''mirror'' [item ''bed'', item ''mirror'']
   \<and> functionalScore (calculateDesignFengShui [item ''bed'', item ''mirror''] ''kitchen'') = 70
   \<and> functionalScore (calculateDesignFengShui [item ''bed'', item ''mirror''] ''bedroom'') = 70
   \<and> functionalScore (calculateDesignFengShui [item ''bed''] ''bedroom'') = 80
   \<and> rec_mirror \<in> set (recommendations
        (calculateDesignFengShui [item ''bed'', item ''mirror''] ''bedroom''))"
proof -
  have k: "''kitchen'' \<notin> {''bedroom'', ''living'', ''office''}" by simp
  note m = bed_and_mirror_present(1)
  from k m functionalScore_rules [of "[item ''bed'', item ''mirror'']" "''kitchen''"]
  have a: "functionalScore (calculateDesignFengShui [item ''bed'', item ''mirror''] ''kitchen'') = 70"
    and b: "functionalScore (calculateDesignFengShui [item ''bed'', item ''mirror''] ''bedroom'') = 70"
    and c: "rec_mirror \<in> set (recommendations
        (calculateDesignFengShui [item ''bed'', item ''mirror''] ''bedroom''))"
    by (simp_all add: bed_and_mirror_present)
  from functionalScore_rules [of "[item ''bed'']" "''kitchen''"]
  have d: "functionalScore (calculateDesignFengShui [item ''bed''] ''bedroom'') = 80"
    by (simp add: present_def item_def)
  from k m a b c d show ?thesis by blast
qed

subsection \<open>The recommendations\<close>

text \<open>
  Claim C6. The recommendations of a result are \<open>generateRecommendations\<close> of its counts, its
  energy tallies, the item list and the room type. That list is made of the messages of the
  rules that fire, in the fixed order: the five element rules, the two energy rules, the two
  room rules, the clutter rule; when none fires it is the one affirmative message. Each
  rule's message is in the list exactly when the rule's own condition holds. The list is
  never empty, and on the empty item list it starts with the five element messages.
\<close>

theorem recommendations_rules:
  "recommendations (calculateDesignFengShui elements roomType) =
     generateRecommendations (elementCounts (calculateDesignFengShui elements roomType))
       (energyBalance (calculateDesignFengShui elements roomType)) elements roomType
   \<and> generateRecommendations c b placed roomType =
       (if fired (element_rules c @ energy_rules b @ room_rules placed roomType @
                  clutter_rules placed) = []
        then [rec_good]
        else fired (element_rules c @ energy_rules b @ room_rules placed roomType @
                    clutter_rules placed))
   \<and> (\<forall>(cond, m) \<in> set (element_rules c @ energy_rules b @ room_rules placed roomType @
                           clutter_rules placed).
         (m \<in> set (generateRecommendations c b placed roomType)) = cond)
   \<and> generateRecommendations c b placed roomType \<noteq> []
   \<and> take 5 (recommendations (calculateDesignFengShui [] roomType)) =
       [rec_wood, rec_fire, rec_water, rec_earth, rec_metal]"
proof -
  have a: "recommendations (calculateDesignFengShui elements roomType) =
     generateRecommendations (elementCounts (calculateDesignFengShui elements roomType))
       (energyBalance (calculateDesignFengShui elements roomType)) elements roomType"
    by (simp add: calculateDesignFengShui_fields)
  have b: "generateRecommendations c b placed roomType =
       (if fired (element_rules c @ energy_rules b @ room_rules placed roomType @
                  clutter_rules placed) = []
        then [rec_good]
        else fired (element_rules c @ energy_rules b @ room_rules placed roomType @
                    clutter_rules placed))"
    using generateRecommendations_fired [of c b placed roomType]
    by (simp only: all_rules_def)
  have c: "\<forall>(cond, m) \<in> set (element_rules c @ energy_rules b @ room_rules placed roomType @
                           clutter_rules placed).
         (m \<in> set (generateRecommendations c b placed roomType)) = cond"
    using rule_fires_iff [of _ _ c b placed roomType]
    unfolding all_rules_def by blast
  have d: "generateRecommendations c b placed roomType \<noteq> []"
    by (simp add: generateRecommendations_fired)
  have "tallied_elements [] = no_elements" "tallied_energy [] = no_energy"
    by (simp_all add: tallied_elements_def tallied_energy_def count_element_def count_yin_def
        count_yang_def no_elements_def no_energy_def inherited_type_def)
  then have e: "take 5 (recommendations (calculateDesignFengShui [] roomType)) =
       [rec_wood, rec_fire, rec_water, rec_earth, rec_metal]"
    by (simp add: calculateDesignFengShui_fields generateRecommendations_fired all_rules_def
        element_rules_def fired_def no_elements_def)
  from a b c d e show ?thesis by blast
qed

theorem recommendations_rules_witness:
  "(wood no_elements < 2, rec_wood) \<in> set (element_rules no_elements @ energy_rules no_energy @
       room_rules [] ''living'' @ clutter_rules [])
   \<and> wood no_elements < 2
   \<and> rec_wood \<in> set (generateRecommendations no_elements no_energy [] ''living'')
   \<and> recommendations (calculateDesignFengShui balanced_office ''office'') = [rec_good]"
proof -
  note t = recommendations_rules [of balanced_office "''office''"
      "elementCounts (calculateDesignFengShui balanced_office ''office'')"
      "energyBalance (calculateDesignFengShui balanced_office ''office'')" balanced_office]
  note u = recommendations_rules [of "[]" "''living''" no_elements no_energy "[]"]
  have m: "(wood no_elements < 2, rec_wood) \<in> set (element_rules no_elements @
      energy_rules no_energy @ room_rules [] ''living'' @ clutter_rules [])"
    by (simp add: element_rules_def)
  have w: "wood no_elements < 2"
    by (simp add: no_elements_def)
  from u have "\<forall>(cond, m) \<in> set (element_rules no_elements @ energy_rules no_energy @
      room_rules [] ''living'' @ clutter_rules []).
      (m \<in> set (generateRecommendations no_elements no_energy [] ''living'')) = cond"
    by blast
  with m have "(rec_wood \<in> set (generateRecommendations no_elements no_energy [] ''living''))
      = (wood no_elements < 2)"
    by blast
  with w have r: "rec_wood \<in> set (generateRecommendations no_elements no_energy [] ''living'')"
    by blast
  from t have "recommendations (calculateDesignFengShui balanced_office ''office'') =
      (if fired (element_rules (elementCounts (calculateDesignFengShui balanced_office ''office'')) @
         energy_rules (energyBalance (calculateDesignFengShui balanced_office ''office'')) @
         room_rules balanced_office ''office'' @ clutter_rules balanced_office) = []
       then [rec_good]
       else fired (element_rules (elementCounts (calculateDesignFengShui balanced_office ''office'')) @
         energy_rules (energyBalance (calculateDesignFengShui balanced_office ''office'')) @
         room_rules balanced_office ''office'' @ clutter_rules balanced_office))"
    by (simp only:)
  then have g: "recommendations (calculateDesignFengShui balanced_office ''office'') = [rec_good]"
    by (simp add: balanced_office_fires_nothing)
  from m w r g show ?thesis by blast
qed

subsection \<open>The spatial score\<close>

text \<open>
  Claim C7. The spatial score depends on the number of items alone: 90 below 5 items, 85 below
  10, 75 below 15, 65 below 20 and 50 from 20 on. The empty list scores 90, and a list that is
  no longer than another scores at least as much.
\<close>

theorem spacialScore_steps:
  "spacialScore (calculateDesignFengShui elements roomType) =
     (if length elements < 5 then 90 else if length elements < 10 then 85
      else if length elements < 15 then 75 else if length elements < 20 then 65 else 50)
   \<and> spacialScore (calculateDesignFengShui [] roomType) = 90
   \<and> (length elements \<le> length elements' \<longrightarrow>
        spacialScore (calculateDesignFengShui elements' roomType')
          \<le> spacialScore (calculateDesignFengShui elements roomType))"
  by (simp add: calculateDesignFengShui_fields calculateSpacialScore_step clutter_step_def)

theorem spacialScore_steps_witness:
  "length (replicate 4 (item ''plant'')) \<le> length (replicate 5 (item ''plant''))
   \<and> spacialScore (calculateDesignFengShui (replicate 4 (item ''plant'')) ''living'') = 90
   \<and> spacialScore (calculateDesignFengShui (replicate 5 (item ''plant'')) ''office'') = 85
   \<and> spacialScore (calculateDesignFengShui (replicate 5 (item ''plant'')) ''office'')
      \<le> spacialScore (calculateDesignFengShui (replicate 4 (item ''plant'')) ''living'')"
  using spacialScore_steps [of "replicate 4 (item ''plant'')" "''living''"
      "replicate 5 (item ''plant'')" "''office''"]
    spacialScore_steps [of "replicate 5 (item ''plant'')" "''office''"]
  by simp

subsection \<open>The ranges of the scores\<close>

text \<open>
  Claim C9. The energy score is one of 50, 60, 80 and 100, the spatial score is one of 50, 65,
  75, 85 and 90, and the functional score is at least 60 and at most 100, for every item list
  and every room type. The element balance and the overall score are integers between 0 and
  100 for every item list none of whose types is an inherited name. For the one item of type
  \<open>constructor\<close> both are \<open>NaN\<close>: the test \<open>if (data)\<close>, which skips the types that the
  catalog does not know, lets the inherited names through.
\<close>

theorem scores_in_range:
  "(\<not> inherited_type elements \<longrightarrow>
      (\<exists>k. elementBalance (calculateDesignFengShui elements roomType) = Num k
           \<and> 0 \<le> k \<and> k \<le> 100)
    \<and> (\<exists>k. overallScore (calculateDesignFengShui elements roomType) = Num k
           \<and> 0 \<le> k \<and> k \<le> 100))
   \<and> energyScore (calculateDesignFengShui elements roomType) \<in> {50, 60, 80, 100}
   \<and> spacialScore (calculateDesignFengShui elements roomType) \<in> {50, 65, 75, 85, 90}
   \<and> 60 \<le> functionalScore (calculateDesignFengShui elements roomType)
   \<and> functionalScore (calculateDesignFengShui elements roomType) \<le> 100
   \<and> elementBalance (calculateDesignFengShui [item ''constructor''] roomType) = NaN
   \<and> overallScore (calculateDesignFengShui [item ''constructor''] roomType) = NaN"
proof -
  let ?es = "calculateEnergyBalanceScore (tallied_energy elements)"
  let ?ss = "calculateSpacialScore elements"
  let ?fs = "calculateFunctionalScore elements roomType"
  have es: "?es \<in> {50, 60, 80, 100}"
    by (simp add: calculateEnergyBalanceScore_bucket energy_bucket_def)
  have ss: "?ss \<in> {50, 65, 75, 85, 90}"
    by (simp add: calculateSpacialScore_step clutter_step_def)
  have fs: "70 \<le> ?fs" "?fs \<le> 95"
    using calculateFunctionalScore_bounds [of elements roomType] by simp_all
  have es': "0 \<le> ?es" "?es \<le> 100" using es by auto
  have ss': "0 \<le> ?ss" "?ss \<le> 100" using ss by auto
  have in_range: "\<exists>k. elementBalance (calculateDesignFengShui elements roomType) = Num k
      \<and> 0 \<le> k \<and> k \<le> 100" if "\<not> inherited_type elements"
  proof (cases "catalogued elements = []")
    case True
    with that show ?thesis by (simp add: elementBalance_cases(2))
  next
    case False
    with that rounded_double_balance_value(1,2) [OF False] show ?thesis
      by (simp add: elementBalance_cases(3))
  qed
  have overall: "\<exists>k. overallScore (calculateDesignFengShui elements roomType) = Num k
      \<and> 0 \<le> k \<and> k \<le> 100" if "\<not> inherited_type elements"
  proof -
    from in_range [OF that] obtain b
      where b: "calculateElementBalanceScore (tallied_elements elements) = Num b"
        "0 \<le> b" "b \<le> 100"
      by (auto simp add: calculateDesignFengShui_fields)
    let ?v = "of_int b * (3 / 10) + of_int ?es * (25 / 100) + of_int ?ss * (25 / 100)
      + of_int ?fs * (20 / 100) :: rat"
    have r: "(0::rat) \<le> of_int b" "of_int b \<le> (100::rat)"
      "(0::rat) \<le> of_int ?es" "of_int ?es \<le> (100::rat)"
      "(0::rat) \<le> of_int ?ss" "of_int ?ss \<le> (100::rat)"
      "(0::rat) \<le> of_int ?fs" "of_int ?fs \<le> (100::rat)"
      using b es' ss' fs by simp_all
    have "of_int 0 \<le> ?v" "?v \<le> of_int 100"
      using r by simp_all
    from Math_round_between [OF this] show ?thesis
      by (simp add: overallScore_unfold b(1))
  qed
  have c: "elementBalance (calculateDesignFengShui [item ''constructor''] roomType) = NaN"
    using one_constructor_facts(1) by (rule elementBalance_cases(1))
  then have d: "overallScore (calculateDesignFengShui [item ''constructor''] roomType) = NaN"
    by (simp add: overallScore_unfold calculateDesignFengShui_fields)
  from in_range overall es ss fs c d show ?thesis
    by (simp add: calculateDesignFengShui_fields)
qed

theorem scores_in_range_witness:
  "\<not> inherited_type five_plants_and_tv
   \<and> elementBalance (calculateDesignFengShui five_plants_and_tv ''living'') = Num 37
   \<and> (0::int) \<le> 37 \<and> (37::int) \<le> 100
   \<and> inherited_type [item ''constructor'']
   \<and> elementBalance (calculateDesignFengShui [item ''constructor''] ''living'') = NaN
   \<and> overallScore (calculateDesignFengShui [item ''constructor''] ''living'') = NaN"
proof -
  from scores_in_range [of five_plants_and_tv "''living''"]
    five_plants_and_tv_facts(1)
  obtain k where "elementBalance (calculateDesignFengShui five_plants_and_tv ''living'') = Num k"
      "0 \<le> k" "k \<le> 100"
    by blast
  then have a: "elementBalance (calculateDesignFengShui five_plants_and_tv ''living'') = Num 37"
      "(0::int) \<le> 37" "(37::int) \<le> 100"
    by (simp_all add: five_plants_and_tv_balance)
  from scores_in_range [of five_plants_and_tv "''living''"]
  have b: "elementBalance (calculateDesignFengShui [item ''constructor''] ''living'') = NaN"
      "overallScore (calculateDesignFengShui [item ''constructor''] ''living'') = NaN"
    by blast+
  from five_plants_and_tv_facts(1) a one_constructor_facts(1) b show ?thesis by blast
qed

subsection \<open>The energy score of an empty tally\<close>

text \<open>
  Claim C10. When the tally of an item list has neither yin nor yang, the energy score is 50;
  so it is for the empty list, whose element balance is 0.
\<close>

theorem energyScore_zero_total:
  "(yin (energyBalance (calculateDesignFengShui elements roomType)) +
    yang (energyBalance (calculateDesignFengShui elements roomType)) = 0 \<longrightarrow>
      energyScore (calculateDesignFengShui elements roomType) = 50)
   \<and> energyScore (calculateDesignFengShui [] roomType) = 50
   \<and> elementBalance (calculateDesignFengShui [] roomType) = Num 0"
proof -
  have nil: "catalogued [] = []" "\<not> inherited_type []"
    by (simp_all add: catalogued_def inherited_type_def)
  have a: "yin (energyBalance (calculateDesignFengShui elements roomType)) +
      yang (energyBalance (calculateDesignFengShui elements roomType)) = 0 \<longrightarrow>
      energyScore (calculateDesignFengShui elements roomType) = 50"
    by (simp add: calculateDesignFengShui_fields calculateEnergyBalanceScore_bucket)
  have b: "energyScore (calculateDesignFengShui [] roomType) = 50"
    by (simp add: calculateDesignFengShui_fields calculateEnergyBalanceScore_tallied nil)
  have c: "elementBalance (calculateDesignFengShui [] roomType) = Num 0"
    by (simp add: calculateDesignFengShui_fields calculateElementBalanceScore_tallied nil)
  from a b c show ?thesis by blast
qed

theorem energyScore_zero_total_witness:
  "yin (energyBalance (calculateDesignFengShui [item ''aquarium''] ''living'')) +
   yang (energyBalance (calculateDesignFengShui [item ''aquarium''] ''living'')) = 0
   \<and> energyScore (calculateDesignFengShui [item ''aquarium''] ''living'') = 50"
proof -
  have h: "yin (energyBalance (calculateDesignFengShui [item ''aquarium''] ''living'')) +
      yang (energyBalance (calculateDesignFengShui [item ''aquarium''] ''living'')) = 0"
    by (simp add: calculateDesignFengShui_fields tallied_energy_def count_yin_def count_yang_def
        counts_as_yin_def counts_as_yang_def item_def lookups)
  with energyScore_zero_total [of "[item ''aquarium'']" "''living''"] show ?thesis
    by simp
qed

end
